theory Spec2Isabelle
  imports Complex_Main "HOL-Library.Finite_Map"
begin

section \<open>Pod restart tracker: data model\<close>

text \<open>
  The development embeds \<^verbatim>\<open>charts/pod-restart-tracker/docker/restart_tracker.py\<close>.

  A Python \<^verbatim>\<open>str\<close> is a sequence of Unicode code points, so it is a list of naturals
  here (an Isabelle \<^typ>\<open>char\<close> is a byte). \<open>pys\<close> turns an ASCII literal into
  such a string.
\<close>

type_synonym pystr = "nat list"

definition pys :: "string \<Rightarrow> pystr" where
  "pys s = map of_char s"

text \<open>
  A \<^verbatim>\<open>datetime\<close> is the number of microseconds since 0001-01-01T00:00:00, the
  resolution and the origin of Python's type; the values of the type are
  \<open>0 \<le> t < DATETIME_END\<close> (up to 9999-12-31T23:59:59.999999). A \<^verbatim>\<open>timedelta\<close> is a
  number of microseconds.
\<close>

type_synonym datetime = int
type_synonym timedelta = int

definition DATETIME_END :: int where
  "DATETIME_END = 3652059 * 86400 * 1000000"

definition MAX_DELTA_DAYS :: int where
  "MAX_DELTA_DAYS = 999999999"

datatype py_exception =
    OverflowError
  | UnicodeEncodeError
  | AttributeError
  | ZeroDivisionError
  | InvalidHeader
  | ExternalError pystr

text \<open>\<^verbatim>\<open>timedelta(minutes=m)\<close>: the day count of the normalised value is bounded.\<close>

definition timedelta_minutes :: "int \<Rightarrow> py_exception + timedelta" where
  "timedelta_minutes m =
     (let us = m * 60000000; days = us div 86400000000
      in if days < - MAX_DELTA_DAYS \<or> MAX_DELTA_DAYS < days then Inl OverflowError
         else Inr us)"

text \<open>\<^verbatim>\<open>t - d\<close> for a datetime \<open>t\<close> and a timedelta \<open>d\<close>: the result must be a datetime.\<close>

definition datetime_sub :: "datetime \<Rightarrow> timedelta \<Rightarrow> py_exception + datetime" where
  "datetime_sub t d =
     (let r = t - d
      in if r < 0 \<or> DATETIME_END \<le> r then Inl OverflowError else Inr r)"

text \<open>The module-level configuration, read from the environment at start-up.\<close>

record config =
  NTFY_URL :: pystr
  NTFY_TOPIC :: pystr
  CLUSTER_NAME :: pystr
  RESTART_THRESHOLD :: int
  TIME_WINDOW_MINUTES :: int

text \<open>One entry of a key's history: \<^verbatim>\<open>{'timestamp': now, 'restart_count': n}\<close>.\<close>

record observation =
  timestamp :: datetime
  restart_count :: int

text \<open>
  The two module-level dictionaries. \<open>restart_history\<close> is a
  \<^verbatim>\<open>defaultdict(list)\<close>: reading a missing key yields the empty list.
\<close>

record tracker_state =
  restart_history :: "(pystr, observation list) fmap"
  last_log_collected :: "(pystr, datetime) fmap"

definition initial_state :: tracker_state where
  "initial_state = \<lparr>restart_history = fmempty, last_log_collected = fmempty\<rparr>"

definition history_of :: "tracker_state \<Rightarrow> pystr \<Rightarrow> observation list" where
  "history_of st k = (case fmlookup (restart_history st) k of None \<Rightarrow> [] | Some h \<Rightarrow> h)"

section \<open>The restart rate analyzer\<close>

text \<open>
  \<^verbatim>\<open>cutoff_time = now - timedelta(minutes=TIME_WINDOW_MINUTES)\<close> (line 95). Both the
  construction of the timedelta and the subtraction can raise.
\<close>

definition cutoff_time :: "config \<Rightarrow> datetime \<Rightarrow> py_exception + datetime" where
  "cutoff_time cfg now =
     (case timedelta_minutes (TIME_WINDOW_MINUTES cfg) of
        Inl e \<Rightarrow> Inl e
      | Inr d \<Rightarrow> datetime_sub now d)"

text \<open>
  Python's true division raises on a zero divisor; HOL's \<open>x / 0\<close> is \<open>0\<close>, so the raise
  is written out.
\<close>

definition truediv :: "rat \<Rightarrow> rat \<Rightarrow> py_exception + rat" where
  "truediv a b = (if b = 0 then Inl ZeroDivisionError else Inr (a / b))"

text \<open>
  Lines 101-109, on the pruned list of the key. \<^verbatim>\<open>total_seconds() / 60\<close> and the
  quotient are computed on rationals: the model keeps the exact value that the Python
  floats approximate. The comparisons \<^verbatim>\<open>len(...) > 1\<close> and \<^verbatim>\<open>time_diff > 0\<close> are exact in
  both.
\<close>

definition restart_rate :: "observation list \<Rightarrow> py_exception + rat" where
  "restart_rate h =
     (if 1 < length h then
        (case truediv (of_int (timestamp (last h) - timestamp (hd h)) / 1000000) 60 of
           Inl e \<Rightarrow> Inl e
         | Inr time_diff \<Rightarrow>
             if 0 < time_diff then truediv (of_nat (length h)) time_diff else Inr 0)
      else Inr 0)"

text \<open>
  \<^verbatim>\<open>analyze_restart_pattern(pod_key, restart_count)\<close>. \<open>now\<close> is the reading of
  \<^verbatim>\<open>datetime.now()\<close> at line 88. The append (lines 89-92) has happened when line 95
  raises, so the state returned with an exception holds the appended, unpruned list.
\<close>

definition analyze_restart_pattern ::
  "config \<Rightarrow> datetime \<Rightarrow> tracker_state \<Rightarrow> pystr \<Rightarrow> int \<Rightarrow> tracker_state \<times> (py_exception + rat)"
where
  "analyze_restart_pattern cfg now st pod_key rc =
     (let appended = history_of st pod_key @ [\<lparr>timestamp = now, restart_count = rc\<rparr>];
          st1 = st\<lparr>restart_history := fmupd pod_key appended (restart_history st)\<rparr>
      in case cutoff_time cfg now of
           Inl e \<Rightarrow> (st1, Inl e)
         | Inr cutoff \<Rightarrow>
             (let pruned = filter (\<lambda>r. cutoff < timestamp r) appended;
                  st2 = st1\<lparr>restart_history := fmupd pod_key pruned (restart_history st1)\<rparr>
              in (st2, restart_rate pruned)))"

text \<open>
  A run of calls of \<open>analyze_restart_pattern\<close>, each with its key, its clock reading and
  its restart count, in order. A call that raised is followed by the next one, as the
  server goes on with the next event.
\<close>

fun record_calls :: "config \<Rightarrow> (pystr \<times> datetime \<times> int) list \<Rightarrow> tracker_state \<Rightarrow> tracker_state" where
  "record_calls cfg [] st = st"
| "record_calls cfg ((k, now, rc) # cs) st =
     record_calls cfg cs (fst (analyze_restart_pattern cfg now st k rc))"

section \<open>Severity\<close>

text \<open>Lines 136-141: two independent \<^verbatim>\<open>if\<close> statements overwrite the default.\<close>

definition severity :: "int \<Rightarrow> pystr" where
  "severity rc =
     (let priority = pys ''default'';
          priority = (if 10 < rc then pys ''high'' else priority);
          priority = (if 20 < rc then pys ''max'' else priority)
      in priority)"

text \<open>
  The order of the priorities that \<open>severity\<close> produces, by the notifier's scale
  (min, low, default, high, max): it is what makes "monotonic" a statement.
\<close>

definition priority_rank :: "pystr \<Rightarrow> nat" where
  "priority_rank p =
     (if p = pys ''default'' then 3 else if p = pys ''high'' then 4
      else if p = pys ''max'' then 5 else 0)"

section \<open>The notifier\<close>

text \<open>\<^verbatim>\<open>s.encode('ascii', 'ignore').decode('ascii')\<close>: every code point above 127 is left out.\<close>

definition ascii_ignore :: "pystr \<Rightarrow> pystr" where
  "ascii_ignore s = filter (\<lambda>c. c < 128) s"

text \<open>
  \<^verbatim>\<open>s.encode('utf-8')\<close>, bytes as naturals below 256. A surrogate code point raises.
  The code points of a Python string are at most 1114111, so the last case is the
  four-byte form.
\<close>

definition utf8_char :: "nat \<Rightarrow> py_exception + nat list" where
  "utf8_char c =
     (if c < 128 then Inr [c]
      else if c < 2048 then Inr [192 + c div 64, 128 + c mod 64]
      else if 55296 \<le> c \<and> c \<le> 57343 then Inl UnicodeEncodeError
      else if c < 65536 then Inr [224 + c div 4096, 128 + c div 64 mod 64, 128 + c mod 64]
      else Inr [240 + c div 262144, 128 + c div 4096 mod 64, 128 + c div 64 mod 64,
                128 + c mod 64])"

fun utf8_encode :: "pystr \<Rightarrow> py_exception + nat list" where
  "utf8_encode [] = Inr []"
| "utf8_encode (c # cs) =
     (case utf8_char c of
        Inl e \<Rightarrow> Inl e
      | Inr b \<Rightarrow> (case utf8_encode cs of Inl e \<Rightarrow> Inl e | Inr bs \<Rightarrow> Inr (b @ bs)))"

text \<open>\<^verbatim>\<open>sep.join(xs)\<close>.\<close>

fun join :: "pystr \<Rightarrow> pystr list \<Rightarrow> pystr" where
  "join sep [] = []"
| "join sep [x] = x"
| "join sep (x # y # ys) = x @ sep @ join sep (y # ys)"

text \<open>The \<^verbatim>\<open>tags\<close> argument: \<^verbatim>\<open>None\<close>, a list of strings, or one string.\<close>

datatype tags_arg = NoTags | TagList "pystr list" | OneTag pystr

text \<open>\<^verbatim>\<open>if tags:\<close> is false for \<^verbatim>\<open>None\<close>, the empty list and the empty string.\<close>

fun tags_truthy :: "tags_arg \<Rightarrow> bool" where
  "tags_truthy NoTags = False"
| "tags_truthy (TagList ts) = (ts \<noteq> [])"
| "tags_truthy (OneTag t) = (t \<noteq> [])"

text \<open>Line 48: the comprehension keeps one entry per tag, also when nothing of it is left.\<close>

fun tags_clean :: "tags_arg \<Rightarrow> pystr list" where
  "tags_clean NoTags = []"
| "tags_clean (TagList ts) = map ascii_ignore ts"
| "tags_clean (OneTag t) = map ascii_ignore [t]"

text \<open>What \<^verbatim>\<open>requests.post\<close> is called with: the URL, the body and the four headers.\<close>

record ntfy_request =
  req_url :: pystr
  req_data :: "nat list"
  hdr_Title :: pystr
  hdr_Priority :: pystr
  hdr_Content_Type :: pystr
  hdr_Tags :: "pystr option"

text \<open>What \<^verbatim>\<open>requests.post\<close> does: a response with a status code and a text, or a raise.\<close>

datatype http_result = Response int pystr | Raised py_exception





text \<open>The calls of \<^verbatim>\<open>logger\<close>, by the line that makes them.\<close>

datatype log_record =
    Info_notification_sent pystr
  | Error_notification_status int pystr
  | Error_notification_exception py_exception
  | Error_collect_logs py_exception
  | Info_pod_restart_check pystr pystr
  | Error_process_pod_event py_exception
  | Info_received_event pystr
  | Error_process_request pystr

fun is_error_record :: "log_record \<Rightarrow> bool" where
  "is_error_record (Info_notification_sent _) = False"
| "is_error_record (Info_pod_restart_check _ _) = False"
| "is_error_record (Info_received_event _) = False"
| "is_error_record _ = True"

text \<open>
  What the program does to the outside, in order. \<open>Post\<close> is a call of
  \<^verbatim>\<open>requests.post\<close> with the request; what the call does is its result.
\<close>

datatype effect =
    Log log_record
  | Post ntfy_request
  | Kubectl_logs pystr pystr pystr

fun is_log_fetch :: "effect \<Rightarrow> bool" where
  "is_log_fetch (Kubectl_logs _ _ _) = True"
| "is_log_fetch _ = False"

text \<open>Lines 38-54: the request, unless encoding the message raises.\<close>

definition build_request ::
  "config \<Rightarrow> pystr \<Rightarrow> pystr \<Rightarrow> pystr \<Rightarrow> tags_arg \<Rightarrow> py_exception + ntfy_request" where
  "build_request cfg title message priority tags =
     (let title_clean = ascii_ignore title
      in case utf8_encode message of
           Inl e \<Rightarrow> Inl e
         | Inr message_clean \<Rightarrow>
             Inr \<lparr>req_url = NTFY_URL cfg @ pys ''/'' @ NTFY_TOPIC cfg,
                  req_data = message_clean,
                  hdr_Title = title_clean,
                  hdr_Priority = priority,
                  hdr_Content_Type = pys ''text/plain; charset=utf-8'',
                  hdr_Tags = (if tags_truthy tags then Some (join (pys '','') (tags_clean tags))
                              else None)\<rparr>)"

text \<open>
  \<^verbatim>\<open>send_ntfy_notification\<close>: the whole body is inside \<^verbatim>\<open>try\<close>, and the handler of
  \<^verbatim>\<open>Exception\<close> logs and returns \<^verbatim>\<open>False\<close>. \<open>post\<close> is the transport.
\<close>

definition send_ntfy_notification ::
  "config \<Rightarrow> (ntfy_request \<Rightarrow> http_result) \<Rightarrow> pystr \<Rightarrow> pystr \<Rightarrow> pystr \<Rightarrow> tags_arg
     \<Rightarrow> bool \<times> effect list" where
  "send_ntfy_notification cfg post title message priority tags =
     (case build_request cfg title message priority tags of
        Inl e \<Rightarrow> (False, [Log (Error_notification_exception e)])
      | Inr req \<Rightarrow>
          (case post req of
             Raised e \<Rightarrow> (False, [Post req, Log (Error_notification_exception e)])
           | Response status_code text \<Rightarrow>
               if status_code = 200
               then (True, [Post req, Log (Info_notification_sent (hdr_Title req))])
               else (False, [Post req, Log (Error_notification_status status_code text)])))"

section \<open>Log collection\<close>

text \<open>What \<^verbatim>\<open>subprocess.run\<close> does: it completes with a return code, stdout and stderr, or raises.\<close>

datatype proc_result = Completed int pystr pystr | Run_raised py_exception

text \<open>\<^verbatim>\<open>get_pod_logs\<close> (lines 68-84); it handles every exception of the call itself.\<close>

definition get_pod_logs :: "proc_result \<Rightarrow> pystr \<Rightarrow> pystr \<Rightarrow> pystr \<Rightarrow> pystr \<times> effect list" where
  "get_pod_logs run namespace pod_name container_name =
     (case run of
        Completed returncode out err \<Rightarrow>
          if returncode = 0 then (out, [Kubectl_logs namespace pod_name container_name])
          else (pys ''Erro ao coletar logs: '' @ err,
                [Kubectl_logs namespace pod_name container_name])
      | Run_raised e \<Rightarrow>
          (pys ''Logs n'' @ [227] @ pys ''o dispon'' @ [237] @ pys ''veis'',
           [Kubectl_logs namespace pod_name container_name, Log (Error_collect_logs e)]))"

section \<open>Processing a pod event\<close>

text \<open>
  The part of a pod snapshot that the program reads. A field that
  \<^verbatim>\<open>.get(name, default)\<close> reads is an option, \<open>None\<close> when the key is missing; the
  \<^verbatim>\<open>metadata\<close> and \<^verbatim>\<open>status\<close> dictionaries are flattened into the snapshot, and a
  missing \<^verbatim>\<open>containerStatuses\<close> is the empty list. A value of another type at one
  of these keys, on which the code raises and \<^verbatim>\<open>process_pod_event\<close> returns
  \<^verbatim>\<open>False\<close>, is not a value of these types.
\<close>

record waiting_state =
  waiting_reason :: "pystr option"
  waiting_message :: "pystr option"

record terminated_state =
  terminated_reason :: "pystr option"
  terminated_exitCode :: "int option"
  terminated_message :: "pystr option"

record container_status =
  cs_name :: "pystr option"
  cs_restartCount :: "int option"
  cs_state_waiting :: "waiting_state option"
  cs_lastState_terminated :: "terminated_state option"

record pod_snapshot =
  metadata_name :: "pystr option"
  metadata_namespace :: "pystr option"
  containerStatuses :: "container_status list"

text \<open>
  \<^verbatim>\<open>event.data\<close>: a pod snapshot, or a value without \<^verbatim>\<open>.get\<close> (no data, a string,
  a list), on which line 114 raises.
\<close>

datatype event_data = Pod pod_snapshot | Not_a_dict

definition container_name_of :: "container_status \<Rightarrow> pystr" where
  "container_name_of c = (case cs_name c of None \<Rightarrow> pys ''unknown'' | Some n \<Rightarrow> n)"

definition restart_count_of :: "container_status \<Rightarrow> int" where
  "restart_count_of c = (case cs_restartCount c of None \<Rightarrow> 0 | Some n \<Rightarrow> n)"

definition name_of :: "pod_snapshot \<Rightarrow> pystr" where
  "name_of p = (case metadata_name p of None \<Rightarrow> pys ''unknown'' | Some n \<Rightarrow> n)"

definition namespace_of :: "pod_snapshot \<Rightarrow> pystr" where
  "namespace_of p = (case metadata_namespace p of None \<Rightarrow> pys ''default'' | Some n \<Rightarrow> n)"

text \<open>Line 130: \<^verbatim>\<open>f"{namespace}/{name}/{container_name}"\<close>.\<close>

definition pod_key_of :: "pystr \<Rightarrow> pystr \<Rightarrow> pystr \<Rightarrow> pystr" where
  "pod_key_of namespace name container_name =
     namespace @ pys ''/'' @ name @ pys ''/'' @ container_name"

text \<open>
  What the message of an alert is made of (lines 143-180). The text itself is an
  f-string over these values, with the rate printed as \<^verbatim>\<open>{restart_rate:.2f}\<close>; it is
  the parameter \<open>render\<close> of the functions below.
\<close>

record alert =
  alert_namespace :: pystr
  alert_name :: pystr
  alert_container :: container_status
  alert_restart_count :: int
  alert_restart_rate :: rat
  alert_log_snippet :: pystr

text \<open>
  What the outside gives while one container status is processed: the readings of
  \<^verbatim>\<open>datetime.now()\<close> at lines 88, 161 and 165, the run of \<^verbatim>\<open>kubectl\<close> and the
  transport.
\<close>

record container_env =
  now_analyze :: datetime
  now_check :: datetime
  now_collected :: datetime
  kubectl_run :: proc_result
  requests_post :: "ntfy_request \<Rightarrow> http_result"

text \<open>
  Lines 158-165. The clock is read at line 161 only for a key of \<open>last_log_collected\<close>;
  \<^verbatim>\<open>total_seconds() > 300\<close> compares microseconds here. \<^verbatim>\<open>logs[-500:]\<close> is the last 500
  code points.
\<close>

definition collect_log_snippet ::
  "container_env \<Rightarrow> tracker_state \<Rightarrow> pystr \<Rightarrow> pystr \<Rightarrow> pystr \<Rightarrow> pystr
     \<Rightarrow> tracker_state \<times> pystr \<times> effect list" where
  "collect_log_snippet env st pod_key namespace name container_name =
     (if (case fmlookup (last_log_collected st) pod_key of
            None \<Rightarrow> True
          | Some t \<Rightarrow> 300 * 1000000 < now_check env - t)
      then
        (case get_pod_logs (kubectl_run env) namespace name container_name of
           (logs, effs) \<Rightarrow>
             if logs \<noteq> [] then
               (st\<lparr>last_log_collected :=
                     fmupd pod_key (now_collected env) (last_log_collected st)\<rparr>,
                [10] @ pys ''=== '' @ [218] @ pys ''LTIMAS LINHAS DO LOG ==='' @ [10]
                  @ drop (length logs - 500) logs @ [10],
                effs)
             else (st, [], effs))
      else (st, [], []))"

text \<open>
  The body of the loop of \<^verbatim>\<open>process_pod_event\<close> (lines 127-187) for one container
  status. An exception leaves the loop with the state as it is then.
\<close>

definition process_container ::
  "config \<Rightarrow> (alert \<Rightarrow> pystr) \<Rightarrow> container_env \<Rightarrow> pystr \<Rightarrow> pystr \<Rightarrow> tracker_state
     \<Rightarrow> container_status \<Rightarrow> tracker_state \<times> effect list \<times> (py_exception + unit)" where
  "process_container cfg render env namespace name st container =
     (let container_name = container_name_of container;
          rc = restart_count_of container;
          pod_key = pod_key_of namespace name container_name
      in if RESTART_THRESHOLD cfg \<le> rc then
           (case analyze_restart_pattern cfg (now_analyze env) st pod_key rc of
              (st1, Inl e) \<Rightarrow> (st1, [], Inl e)
            | (st1, Inr rate) \<Rightarrow>
                (case collect_log_snippet env st1 pod_key namespace name container_name of
                   (st2, log_snippet, log_effs) \<Rightarrow>
                     (let priority = severity rc;
                          message = render \<lparr>alert_namespace = namespace, alert_name = name,
                                      alert_container = container, alert_restart_count = rc,
                                      alert_restart_rate = rate,
                                      alert_log_snippet = log_snippet\<rparr>;
                          sent = send_ntfy_notification cfg (requests_post env)
                                   (pys ''ALERT: Pod Restarts - '' @ CLUSTER_NAME cfg)
                                   message priority
                                   (TagList [pys ''warning'', pys ''rotating_light''])
                      in (st2, log_effs @ snd sent, Inr ()))))
         else (st, [], Inr ()))"

text \<open>The loop: \<open>outside i\<close> is what the outside gives during the \<open>i\<close>-th container status.\<close>

fun process_containers ::
  "config \<Rightarrow> (alert \<Rightarrow> pystr) \<Rightarrow> (nat \<Rightarrow> container_env) \<Rightarrow> nat \<Rightarrow> pystr \<Rightarrow> pystr
     \<Rightarrow> tracker_state \<Rightarrow> container_status list
     \<Rightarrow> tracker_state \<times> effect list \<times> (py_exception + unit)" where
  "process_containers cfg render outside i namespace name st [] = (st, [], Inr ())"
| "process_containers cfg render outside i namespace name st (c # cs) =
     (case process_container cfg render (outside i) namespace name st c of
        (st1, effs1, Inl e) \<Rightarrow> (st1, effs1, Inl e)
      | (st1, effs1, Inr u) \<Rightarrow>
          (case process_containers cfg render outside (Suc i) namespace name st1 cs of
             (st2, effs2, r) \<Rightarrow> (st2, effs1 @ effs2, r)))"

text \<open>\<^verbatim>\<open>process_pod_event\<close>: \<^verbatim>\<open>True\<close>, or \<^verbatim>\<open>False\<close> when anything raised.\<close>

definition process_pod_event ::
  "config \<Rightarrow> (alert \<Rightarrow> pystr) \<Rightarrow> (nat \<Rightarrow> container_env) \<Rightarrow> tracker_state \<Rightarrow> event_data
     \<Rightarrow> tracker_state \<times> effect list \<times> bool" where
  "process_pod_event cfg render outside st event_data =
     (case event_data of
        Not_a_dict \<Rightarrow> (st, [Log (Error_process_pod_event AttributeError)], False)
      | Pod snapshot \<Rightarrow>
          (let name = name_of snapshot;
               namespace = namespace_of snapshot
           in case process_containers cfg render outside 0 namespace name st
                     (containerStatuses snapshot) of
                (st', effs, Inr u) \<Rightarrow> (st', Log (Info_pod_restart_check namespace name) # effs, True)
              | (st', effs, Inl e) \<Rightarrow>
                  (st', Log (Info_pod_restart_check namespace name) # effs
                          @ [Log (Error_process_pod_event e)], False)))"


section \<open>The HTTP handlers\<close>

record cloud_event =
  ce_type :: pystr
  ce_data :: event_data

text \<open>A JSON response with its status code; \<open>body_message\<close> is the optional \<^verbatim>\<open>"message"\<close>.\<close>

record http_response =
  status_code :: nat
  body_status :: pystr
  body_message :: "pystr option"

text \<open>
  \<^verbatim>\<open>handle_pod_event\<close> (lines 195-211). \<open>from_http\<close> is the CloudEvents decoder: the
  event, or the text of the exception it raised.
\<close>

definition handle_pod_event ::
  "config \<Rightarrow> (alert \<Rightarrow> pystr) \<Rightarrow> (nat \<Rightarrow> container_env) \<Rightarrow> ('req \<Rightarrow> pystr + cloud_event)
     \<Rightarrow> tracker_state \<Rightarrow> 'req \<Rightarrow> tracker_state \<times> effect list \<times> http_response" where
  "handle_pod_event cfg render outside from_http st request =
     (case from_http request of
        Inl msg \<Rightarrow>
          (st, [Log (Error_process_request msg)],
           \<lparr>status_code = 500, body_status = pys ''error'', body_message = Some msg\<rparr>)
      | Inr event \<Rightarrow>
          (case process_pod_event cfg render outside st (ce_data event) of
             (st', effs, success) \<Rightarrow>
               (st', Log (Info_received_event (ce_type event)) # effs,
                if success
                then \<lparr>status_code = 200, body_status = pys ''ok'', body_message = None\<rparr>
                else \<lparr>status_code = 500, body_status = pys ''error'', body_message = None\<rparr>)))"

text \<open>\<^verbatim>\<open>/health\<close>: \<^verbatim>\<open>len(restart_history)\<close> counts the keys of the dictionary.\<close>

record health_report =
  health_status :: pystr
  health_cluster :: pystr
  tracked_pods :: nat

definition health :: "config \<Rightarrow> tracker_state \<Rightarrow> health_report \<times> nat" where
  "health cfg st =
     (\<lparr>health_status = pys ''healthy'', health_cluster = CLUSTER_NAME cfg,
       tracked_pods = fcard (fmdom (restart_history st))\<rparr>, 200)"

text \<open>
  \<^verbatim>\<open>/stats\<close>: one entry for every key with a non-empty list. \<open>last_seen\<close> is the
  timestamp that the response prints in ISO format.
\<close>

record stats_entry =
  total_events :: nat
  last_restart_count :: int
  last_seen :: datetime

definition stats :: "tracker_state \<Rightarrow> (pystr, stats_entry) fmap \<times> nat" where
  "stats st =
     (fmmap (\<lambda>history. \<lparr>total_events = length history,
                          last_restart_count = restart_count (last history),
                          last_seen = timestamp (last history)\<rparr>)
        (fmfilter (\<lambda>pod_key. history_of st pod_key \<noteq> []) (restart_history st)), 200)"

section \<open>Concrete inputs\<close>

text \<open>The defaults of lines 25-29.\<close>

definition default_config :: config where
  "default_config =
     \<lparr>NTFY_URL = pys ''https://ntfy.sh'', NTFY_TOPIC = pys ''k8s-restart-tracker'',
      CLUSTER_NAME = pys ''kube.chalkan3.com.br'', RESTART_THRESHOLD = 5,
      TIME_WINDOW_MINUTES = 60\<rparr>"

text \<open>
  The scenario of the specification: one key, restart counts 6, 7 and 8 at \<open>t = 0\<close>,
  5 and 10 minutes, a window of 60 minutes. \<open>t = 0\<close> is 2024-01-01T00:00:00.
\<close>

definition scenario_key :: pystr where
  "scenario_key = pod_key_of (pys ''prod'') (pys ''api-7f'') (pys ''app'')"

definition scenario_t0 :: datetime where
  "scenario_t0 = 738885 * 86400 * 1000000"

definition scenario_calls :: "(pystr \<times> datetime \<times> int) list" where
  "scenario_calls =
     [(scenario_key, scenario_t0, 6),
      (scenario_key, scenario_t0 + 5 * 60000000, 7),
      (scenario_key, scenario_t0 + 10 * 60000000, 8)]"

definition scenario_third :: "tracker_state \<times> (py_exception + rat)" where
  "scenario_third =
     analyze_restart_pattern default_config (scenario_t0 + 10 * 60000000)
       (record_calls default_config (take 2 scenario_calls) initial_state) scenario_key 8"

text \<open>
  The notification of the specification's last scenario: a title that starts with
  U+1F534 and a space, and the tags "warning" and U+1F6A8.
\<close>

definition critical_title :: pystr where
  "critical_title = [128308, 32] @ pys ''CRITICAL''"

definition warning_tags :: tags_arg where
  "warning_tags = TagList [pys ''warning'', [128680]]"

text \<open>
  An outside for one container status: every clock reading of the iteration is \<open>t\<close>
  but the one after the log fetch, two seconds later; \<^verbatim>\<open>kubectl\<close> prints one line, and
  the transport answers 200.
\<close>

definition example_env :: "datetime \<Rightarrow> container_env" where
  "example_env t =
     \<lparr>now_analyze = t, now_check = t, now_collected = t + 2000000,
      kubectl_run = Completed 0 (pys ''panic: boom'') [],
      requests_post = (\<lambda>req. Response 200 [])\<rparr>"

definition example_container :: "int \<Rightarrow> container_status" where
  "example_container n =
     \<lparr>cs_name = Some (pys ''app''), cs_restartCount = Some n,
      cs_state_waiting = None, cs_lastState_terminated = None\<rparr>"

definition example_snapshot :: "int \<Rightarrow> pod_snapshot" where
  "example_snapshot n =
     \<lparr>metadata_name = Some (pys ''api-7f''), metadata_namespace = Some (pys ''prod''),
      containerStatuses = [example_container n]\<rparr>"

text \<open>
  The state after a first alert for the key of the scenario, at \<open>scenario_t0\<close>: the
  logs were fetched, and the fetch was recorded two seconds later.
\<close>

definition after_first_alert :: tracker_state where
  "after_first_alert =
     fst (process_container default_config (\<lambda>a. []) (example_env scenario_t0)
            (pys ''prod'') (pys ''api-7f'') initial_state (example_container 6))"

text \<open>One later call for another key, ten days after \<open>scenario_t0\<close>.\<close>

definition other_key_calls :: "(pystr \<times> datetime \<times> int) list" where
  "other_key_calls =
     [(pod_key_of (pys ''prod'') (pys ''web-5c'') (pys ''app''),
       scenario_t0 + 10 * 86400 * 1000000, 9)]"


text \<open>
  The second scenario of the specification: a window of 5 minutes, and events for one
  key at \<open>t = 0\<close> and 10 minutes.
\<close>

definition short_window_config :: config where
  "short_window_config = default_config\<lparr>TIME_WINDOW_MINUTES := 5\<rparr>"

definition short_window_calls :: "(pystr \<times> datetime \<times> int) list" where
  "short_window_calls =
     [(scenario_key, scenario_t0, 6),
      (scenario_key, scenario_t0 + 10 * 60000000, 7)]"

text \<open>A snapshot of another pod, with one container that restarted 9 times.\<close>

definition other_snapshot :: pod_snapshot where
  "other_snapshot =
     \<lparr>metadata_name = Some (pys ''web-5c''), metadata_namespace = Some (pys ''prod''),
      containerStatuses = [example_container 9]\<rparr>"

text \<open>A decoder that rejects the empty body and reads any other as one fixed event.\<close>

definition example_from_http :: "nat list \<Rightarrow> pystr + cloud_event" where
  "example_from_http body =
     (if body = [] then Inl (pys ''Failed to read specversion'')
      else Inr \<lparr>ce_type = pys ''dev.knative.apiserver.resource.update'',
               ce_data = Pod (example_snapshot 6)\<rparr>)"

section \<open>Properties\<close>

subsection \<open>Facts about the analyzer\<close>

lemma restart_rate_total: "\<exists>r. restart_rate h = Inr r"
  by (auto simp: restart_rate_def truediv_def)

lemma history_after_analyze:
  "history_of (fst (analyze_restart_pattern cfg now st k rc)) k =
     (case cutoff_time cfg now of
        Inl e \<Rightarrow> history_of st k @ [\<lparr>timestamp = now, restart_count = rc\<rparr>]
      | Inr c \<Rightarrow> filter (\<lambda>r. c < timestamp r)
                  (history_of st k @ [\<lparr>timestamp = now, restart_count = rc\<rparr>]))"
  by (simp add: analyze_restart_pattern_def history_of_def Let_def split: sum.splits)

lemma result_after_analyze:
  "snd (analyze_restart_pattern cfg now st k rc) =
     (case cutoff_time cfg now of
        Inl e \<Rightarrow> Inl e
      | Inr c \<Rightarrow> restart_rate (history_of (fst (analyze_restart_pattern cfg now st k rc)) k))"
  by (simp add: analyze_restart_pattern_def history_of_def Let_def split: sum.splits)

lemma other_key_after_analyze:
  "k' \<noteq> k \<Longrightarrow>
   fmlookup (restart_history (fst (analyze_restart_pattern cfg now st k rc))) k' =
     fmlookup (restart_history st) k'"
  by (simp add: analyze_restart_pattern_def Let_def split: sum.splits)

lemma last_log_after_analyze:
  "last_log_collected (fst (analyze_restart_pattern cfg now st k rc)) = last_log_collected st"
  by (simp add: analyze_restart_pattern_def Let_def split: sum.splits)

lemma restart_rate_value:
  "2 \<le> length h \<Longrightarrow> timestamp (hd h) < timestamp (last h) \<Longrightarrow>
   restart_rate h =
     Inr (of_nat (length h) / (of_int (timestamp (last h) - timestamp (hd h)) / 60000000))"
  by (auto simp: restart_rate_def truediv_def split: if_splits)

lemma restart_rate_zero:
  "length h \<le> 1 \<or> timestamp (last h) = timestamp (hd h) \<Longrightarrow> restart_rate h = Inr 0"
  by (auto simp: restart_rate_def truediv_def split: if_splits)

lemmas scenario_defs =
  scenario_third_def scenario_calls_def scenario_key_def scenario_t0_def default_config_def
  initial_state_def analyze_restart_pattern_def history_of_def cutoff_time_def
  timedelta_minutes_def datetime_sub_def MAX_DELTA_DAYS_def DATETIME_END_def
  restart_rate_def truediv_def Let_def

lemma scenario_third_history:
  "history_of (fst scenario_third) scenario_key =
     [\<lparr>timestamp = scenario_t0, restart_count = 6\<rparr>,
      \<lparr>timestamp = scenario_t0 + 5 * 60000000, restart_count = 7\<rparr>,
      \<lparr>timestamp = scenario_t0 + 10 * 60000000, restart_count = 8\<rparr>]"
  by (simp add: scenario_defs)

lemma scenario_third_rate: "snd scenario_third = Inr (3 / 10)"
  by (simp add: scenario_defs)

lemma scenario_final_history:
  "history_of (record_calls default_config scenario_calls initial_state) scenario_key =
     [\<lparr>timestamp = scenario_t0, restart_count = 6\<rparr>,
      \<lparr>timestamp = scenario_t0 + 5 * 60000000, restart_count = 7\<rparr>,
      \<lparr>timestamp = scenario_t0 + 10 * 60000000, restart_count = 8\<rparr>]"
  by (simp add: scenario_defs)


text \<open>
  Claim C1, as stated, at the scenario of the specification: after the third event three
  observations are retained, they span 10 minutes, and the function returns \<open>3 / 10\<close>,
  not \<open>(3 - 1) / 10\<close>.
\<close>

theorem scenario_rate_counterexample:
  "length (history_of (fst scenario_third) scenario_key) = 3
   \<and> timestamp (last (history_of (fst scenario_third) scenario_key))
       - timestamp (hd (history_of (fst scenario_third) scenario_key)) = 10 * 60000000
   \<and> snd scenario_third = Inr (3 / 10)
   \<and> snd scenario_third \<noteq> Inr ((3 - 1) / 10)"
  by (simp add: scenario_third_history scenario_third_rate)

text \<open>
  Claim C1, amended. When the pruning step is reached and the pruned list of the key has
  \<open>n \<ge> 2\<close> observations whose first and last timestamps are a positive time apart,
  \<open>analyze_restart_pattern\<close> returns \<open>n\<close> divided by the elapsed minutes (the elapsed
  microseconds over 60000000): it counts every retained observation, not the \<open>n - 1\<close>
  intervals between them.
\<close>

theorem rate_is_count_per_elapsed_minute:
  assumes "cutoff_time cfg now = Inr c"
    and "analyze_restart_pattern cfg now st k rc = (st', res)"
    and "2 \<le> length (history_of st' k)"
    and "timestamp (hd (history_of st' k)) < timestamp (last (history_of st' k))"
  shows "res = Inr (of_nat (length (history_of st' k))
                    / (of_int (timestamp (last (history_of st' k))
                               - timestamp (hd (history_of st' k))) / 60000000))"
proof -
  have st': "st' = fst (analyze_restart_pattern cfg now st k rc)"
    and res: "res = snd (analyze_restart_pattern cfg now st k rc)"
    using assms(2) by simp_all
  have "res = restart_rate (history_of st' k)"
    unfolding res st' by (simp add: result_after_analyze assms(1))
  with assms(3,4) show ?thesis
    by (simp add: restart_rate_value)
qed

text \<open>
  The amended claim at the scenario: three observations over 10 minutes give \<open>3 / 10\<close>.
\<close>

theorem rate_is_count_per_elapsed_minute_witness:
  "cutoff_time default_config (scenario_t0 + 10 * 60000000) = Inr (scenario_t0 - 50 * 60000000)
   \<and> 2 \<le> length (history_of (fst scenario_third) scenario_key)
   \<and> timestamp (hd (history_of (fst scenario_third) scenario_key))
       < timestamp (last (history_of (fst scenario_third) scenario_key))
   \<and> snd scenario_third = Inr (3 / (600000000 / 60000000))"
proof -
  have c: "cutoff_time default_config (scenario_t0 + 10 * 60000000)
             = Inr (scenario_t0 - 50 * 60000000)"
    by (simp add: scenario_defs)
  have e: "analyze_restart_pattern default_config (scenario_t0 + 10 * 60000000)
             (record_calls default_config (take 2 scenario_calls) initial_state) scenario_key 8
           = (fst scenario_third, snd scenario_third)"
    by (simp add: scenario_third_def)
  have n: "2 \<le> length (history_of (fst scenario_third) scenario_key)"
    by (simp add: scenario_third_history)
  have d: "timestamp (hd (history_of (fst scenario_third) scenario_key))
             < timestamp (last (history_of (fst scenario_third) scenario_key))"
    by (simp add: scenario_third_history)
  from rate_is_count_per_elapsed_minute [OF c e n d] c n d show ?thesis
    by (simp add: scenario_third_history)
qed

subsection \<open>Pruning keeps the window\<close>

lemma analyze_keeps_order:
  assumes "sorted (map timestamp (history_of st k))"
    and "\<forall>r \<in> set (history_of st k). timestamp r \<le> now"
  shows "sorted (map timestamp (history_of (fst (analyze_restart_pattern cfg now st k rc)) k))
         \<and> (\<forall>r \<in> set (history_of (fst (analyze_restart_pattern cfg now st k rc)) k).
               timestamp r \<le> now)"
proof -
  let ?app = "history_of st k @ [\<lparr>timestamp = now, restart_count = rc\<rparr>]"
  have s: "sorted (map timestamp ?app)"
    using assms by (auto simp: sorted_append)
  have b: "\<forall>r \<in> set ?app. timestamp r \<le> now"
    using assms(2) by auto
  show ?thesis
  proof (cases "cutoff_time cfg now")
    case (Inl e)
    with s b show ?thesis by (simp only: history_after_analyze sum.case) 
  next
    case (Inr c)
    have "sorted (map timestamp (filter (\<lambda>r. c < timestamp r) ?app))"
      using s by (rule sorted_filter)
    with Inr b show ?thesis by (simp only: history_after_analyze sum.case) auto
  qed
qed

lemma analyze_prunes:
  assumes "cutoff_time cfg now = Inr c"
  shows "\<forall>r \<in> set (history_of (fst (analyze_restart_pattern cfg now st k rc)) k). c < timestamp r"
  using assms by (simp add: history_after_analyze)


lemma cutoff_time_value:
  "cutoff_time cfg now = Inr c \<Longrightarrow> c = now - TIME_WINDOW_MINUTES cfg * 60000000"
  by (auto simp: cutoff_time_def timedelta_minutes_def datetime_sub_def Let_def
      split: sum.splits if_splits)

text \<open>
  Claim C2. Take a non-empty run of calls for one key \<open>k\<close> with strictly increasing
  clock readings, from a state whose list for \<open>k\<close> is sorted and older than the first
  reading (the empty list of a fresh key is). If the last call, at the reading \<open>now\<close>,
  reaches its pruning step, then every observation stored for \<open>k\<close> has a timestamp
  above \<open>now\<close> minus \<open>TIME_WINDOW_MINUTES\<close> minutes (60000000 microseconds each), and
  the list is sorted ascending by timestamp. The run is arbitrary, so this holds after
  each call of a longer run.
\<close>

theorem pruned_history_in_window_and_sorted:
  assumes "calls \<noteq> []"
    and "\<forall>c \<in> set calls. fst c = k"
    and "sorted_wrt (<) (map (\<lambda>c. fst (snd c)) calls)"
    and "sorted (map timestamp (history_of st k))"
    and "\<forall>r \<in> set (history_of st k). timestamp r < fst (snd (hd calls))"
    and "\<exists>c. cutoff_time cfg (fst (snd (last calls))) = Inr c"
  shows "(\<forall>r \<in> set (history_of (record_calls cfg calls st) k).
            fst (snd (last calls)) - TIME_WINDOW_MINUTES cfg * 60000000 < timestamp r)
         \<and> sorted (map timestamp (history_of (record_calls cfg calls st) k))"
  using assms
proof (induction calls arbitrary: st)
  case Nil
  then show ?case by simp
next
  case (Cons call calls)
  obtain now rc where call: "call = (k, now, rc)"
    using Cons.prems(2) by (cases call) auto
  let ?st1 = "fst (analyze_restart_pattern cfg now st k rc)"
  have before: "\<forall>r \<in> set (history_of st k). timestamp r \<le> now"
    using Cons.prems(5) by (auto simp: call)
  note step = analyze_keeps_order [OF Cons.prems(4) before, of cfg rc]
  note prems = Cons.prems and IH = Cons.IH
  show ?case
  proof (cases calls)
    case Nil
    then obtain c where c: "cutoff_time cfg now = Inr c"
      using prems(6) by (auto simp: call)
    from analyze_prunes [OF c, of st k rc] cutoff_time_value [OF c] step show ?thesis
      by (simp add: Nil call)
  next
    case (Cons call' calls')
    have "\<forall>r \<in> set (history_of ?st1 k). timestamp r < fst (snd (hd calls))"
      using step prems(3) by (fastforce simp: Cons call)
    moreover have "calls \<noteq> []" "\<forall>c \<in> set calls. fst c = k"
      "sorted_wrt (<) (map (\<lambda>c. fst (snd c)) calls)"
      "\<exists>c. cutoff_time cfg (fst (snd (last calls))) = Inr c"
      using prems(2,3,6) by (simp_all add: Cons)
    ultimately show ?thesis
      using IH [of ?st1] step by (simp add: call Cons)
  qed
qed

lemma short_window_history:
  "history_of (record_calls short_window_config short_window_calls initial_state) scenario_key
     = [\<lparr>timestamp = scenario_t0 + 10 * 60000000, restart_count = 7\<rparr>]"
  by (simp add: short_window_config_def short_window_calls_def scenario_defs)

text \<open>
  Claim C2 at the second scenario of the specification: with a window of 5 minutes and
  events at \<open>t = 0\<close> and 10 minutes, the first observation is pruned by the second call
  and one observation is retained.
\<close>

theorem pruned_history_in_window_and_sorted_witness:
  "short_window_calls \<noteq> []
   \<and> map fst short_window_calls = [scenario_key, scenario_key]
   \<and> sorted_wrt (<) (map (\<lambda>c. fst (snd c)) short_window_calls)
   \<and> history_of initial_state scenario_key = []
   \<and> cutoff_time short_window_config (fst (snd (last short_window_calls)))
       = Inr (scenario_t0 + 5 * 60000000)
   \<and> TIME_WINDOW_MINUTES short_window_config = 5
   \<and> fst (snd (last short_window_calls)) = scenario_t0 + 10 * 60000000
   \<and> history_of (record_calls short_window_config short_window_calls initial_state)
         scenario_key
       = [\<lparr>timestamp = scenario_t0 + 10 * 60000000, restart_count = 7\<rparr>]
   \<and> list_all (\<lambda>r. scenario_t0 + 10 * 60000000 - 5 * 60000000 < timestamp r)
        (history_of (record_calls short_window_config short_window_calls initial_state)
           scenario_key)
   \<and> sorted (map timestamp
        (history_of (record_calls short_window_config short_window_calls initial_state)
           scenario_key))"
proof -
  have 1: "short_window_calls \<noteq> []"
    by (simp add: short_window_calls_def)
  have k: "map fst short_window_calls = [scenario_key, scenario_key]"
    by (simp add: short_window_calls_def)
  have 2: "\<forall>c \<in> set short_window_calls. fst c = scenario_key"
    by (simp add: short_window_calls_def)
  have 3: "sorted_wrt (<) (map (\<lambda>c. fst (snd c)) short_window_calls)"
    by (simp add: short_window_calls_def)
  have e: "history_of initial_state scenario_key = []"
    by (simp add: history_of_def initial_state_def)
  have 4: "sorted (map timestamp (history_of initial_state scenario_key))"
    by (simp add: e)
  have 5: "\<forall>r \<in> set (history_of initial_state scenario_key).
             timestamp r < fst (snd (hd short_window_calls))"
    by (simp add: e)
  have c: "cutoff_time short_window_config (fst (snd (last short_window_calls)))
             = Inr (scenario_t0 + 5 * 60000000)"
    by (simp add: short_window_config_def short_window_calls_def scenario_defs)
  then have 6: "\<exists>c. cutoff_time short_window_config (fst (snd (last short_window_calls)))
                  = Inr c"
    by blast
  have w: "TIME_WINDOW_MINUTES short_window_config = 5"
    by (simp add: short_window_config_def default_config_def)
  have n: "fst (snd (last short_window_calls)) = scenario_t0 + 10 * 60000000"
    by (simp add: short_window_calls_def)
  note inst = pruned_history_in_window_and_sorted [OF 1 2 3 4 5 6]
  have a: "list_all (\<lambda>r. scenario_t0 + 10 * 60000000 - 5 * 60000000 < timestamp r)
        (history_of (record_calls short_window_config short_window_calls initial_state)
           scenario_key)"
    using inst [THEN conjunct1] unfolding list_all_iff n w by simp
  have s: "sorted (map timestamp
        (history_of (record_calls short_window_config short_window_calls initial_state)
           scenario_key))"
    by (rule inst [THEN conjunct2])
  from 1 k 3 e c w n short_window_history a s show ?thesis
    by (intro conjI)
qed

subsection \<open>No division by zero\<close>

text \<open>
  Claim C4. \<open>analyze_restart_pattern\<close> never raises \<open>ZeroDivisionError\<close>; and when
  the pruning step is reached and the pruned list of the key has at most one observation,
  or its first and last timestamps coincide, the function returns 0.
\<close>

theorem rate_zero_without_elapsed_time:
  assumes "analyze_restart_pattern cfg now st k rc = (st', res)"
  shows "res \<noteq> Inl ZeroDivisionError
         \<and> ((\<exists>c. cutoff_time cfg now = Inr c)
              \<and> (length (history_of st' k) \<le> 1
                  \<or> timestamp (last (history_of st' k)) = timestamp (hd (history_of st' k)))
             \<longrightarrow> res = Inr 0)"
proof -
  have st': "st' = fst (analyze_restart_pattern cfg now st k rc)"
    and res: "res = snd (analyze_restart_pattern cfg now st k rc)"
    using assms by simp_all
  have raised: "cutoff_time cfg now = Inl e \<Longrightarrow> e = OverflowError" for e
    by (auto simp: cutoff_time_def timedelta_minutes_def datetime_sub_def Let_def
        split: sum.splits if_splits)
  have "res \<noteq> Inl ZeroDivisionError"
  proof (cases "cutoff_time cfg now")
    case (Inl e)
    with raised show ?thesis by (auto simp: res result_after_analyze)
  next
    case (Inr c)
    with restart_rate_total [of "history_of st' k"] show ?thesis
      by (auto simp: res result_after_analyze st')
  qed
  moreover have "res = Inr 0"
    if "cutoff_time cfg now = Inr c"
      and "length (history_of st' k) \<le> 1
           \<or> timestamp (last (history_of st' k)) = timestamp (hd (history_of st' k))" for c
  proof -
    have "res = restart_rate (history_of st' k)"
      unfolding res st' by (simp add: result_after_analyze that(1))
    with that(2) show ?thesis by (simp add: restart_rate_zero)
  qed
  ultimately show ?thesis by blast
qed


text \<open>
  Claim C4 on one retained observation, and on two observations at the same instant.
\<close>

theorem rate_zero_without_elapsed_time_witness:
  "(\<exists>c. cutoff_time default_config scenario_t0 = Inr c)
   \<and> length (history_of (fst (analyze_restart_pattern default_config scenario_t0
                 initial_state scenario_key 6)) scenario_key) \<le> 1
   \<and> snd (analyze_restart_pattern default_config scenario_t0 initial_state scenario_key 6)
       = Inr 0
   \<and> length (history_of (fst (analyze_restart_pattern default_config scenario_t0
                 (record_calls default_config (take 1 scenario_calls) initial_state)
                 scenario_key 7)) scenario_key) = 2
   \<and> timestamp (last (history_of (fst (analyze_restart_pattern default_config scenario_t0
                 (record_calls default_config (take 1 scenario_calls) initial_state)
                 scenario_key 7)) scenario_key))
       = timestamp (hd (history_of (fst (analyze_restart_pattern default_config scenario_t0
                 (record_calls default_config (take 1 scenario_calls) initial_state)
                 scenario_key 7)) scenario_key))
   \<and> snd (analyze_restart_pattern default_config scenario_t0
            (record_calls default_config (take 1 scenario_calls) initial_state)
            scenario_key 7) = Inr 0"
proof -
  let ?one = "analyze_restart_pattern default_config scenario_t0 initial_state scenario_key 6"
  let ?two = "analyze_restart_pattern default_config scenario_t0
                (record_calls default_config (take 1 scenario_calls) initial_state)
                scenario_key 7"
  have c: "\<exists>c. cutoff_time default_config scenario_t0 = Inr c"
    by (simp add: scenario_defs)
  have h1: "length (history_of (fst ?one) scenario_key) \<le> 1"
    by (simp add: scenario_defs)
  have h2: "history_of (fst ?two) scenario_key =
              [\<lparr>timestamp = scenario_t0, restart_count = 6\<rparr>,
               \<lparr>timestamp = scenario_t0, restart_count = 7\<rparr>]"
    by (simp add: scenario_defs)
  from rate_zero_without_elapsed_time [of default_config scenario_t0 initial_state
      scenario_key 6 "fst ?one" "snd ?one"] c h1
  have r1: "snd ?one = Inr 0" by simp
  from rate_zero_without_elapsed_time [of default_config scenario_t0
      "record_calls default_config (take 1 scenario_calls) initial_state"
      scenario_key 7 "fst ?two" "snd ?two"] c h2
  have r2: "snd ?two = Inr 0" by simp
  have l2: "length (history_of (fst ?two) scenario_key) = 2"
    and t2: "timestamp (last (history_of (fst ?two) scenario_key))
             = timestamp (hd (history_of (fst ?two) scenario_key))"
    by (simp_all only: h2) simp_all
  from c h1 r1 l2 t2 r2 show ?thesis by blast
qed

subsection \<open>The notifier\<close>

lemma posted_iff_built:
  "Post req \<in> set (snd (send_ntfy_notification cfg post title message priority tags))
   \<longleftrightarrow> build_request cfg title message priority tags = Inr req"
  by (auto simp: send_ntfy_notification_def split: sum.splits http_result.splits)

lemma join_ascii:
  "\<forall>c \<in> set sep. c < (128::nat) \<Longrightarrow> \<forall>t \<in> set ts. \<forall>c \<in> set t. c < 128 \<Longrightarrow>
   \<forall>c \<in> set (join sep ts). c < 128"
  by (induction sep ts rule: join.induct) auto

lemma tags_clean_ascii: "\<forall>t \<in> set (tags_clean tags). \<forall>c \<in> set t. c < 128"
  by (cases tags) (auto simp: ascii_ignore_def)

lemma ascii_ignore_filter: "ascii_ignore = filter (\<lambda>c. c < 128)"
  by (rule ext) (simp add: ascii_ignore_def)

lemma comma_ascii: "\<forall>c \<in> set (pys '',''). c < 128"
  by (simp add: pys_def)


text \<open>
  What every request holds that \<open>send_ntfy_notification\<close> passes to
  \<^verbatim>\<open>requests.post\<close>: the title without its code points above 127, and nothing else
  removed; for a non-empty list of tags the comma-separated tags, each without its code
  points above 127 and each kept in its place; ASCII only in the Title and Tags headers;
  and the UTF-8 encoding of the whole message as body.
\<close>

lemma posted_request_normalised:
  assumes "Post req \<in> set (snd (send_ntfy_notification cfg post title message priority tags))"
  shows "hdr_Title req = filter (\<lambda>c. c < 128) title
         \<and> (\<forall>c \<in> set (hdr_Title req). c < 128)
         \<and> (\<forall>ts. tags = TagList ts \<and> ts \<noteq> [] \<longrightarrow>
               hdr_Tags req = Some (join (pys '','') (map (filter (\<lambda>c. c < 128)) ts)))
         \<and> (\<forall>h. hdr_Tags req = Some h \<longrightarrow> (\<forall>c \<in> set h. c < 128))
         \<and> utf8_encode message = Inr (req_data req)"
proof -
  from assms have b: "build_request cfg title message priority tags = Inr req"
    by (simp only: posted_iff_built)
  then obtain body where body: "utf8_encode message = Inr body"
    and req: "req = \<lparr>req_url = NTFY_URL cfg @ pys ''/'' @ NTFY_TOPIC cfg, req_data = body,
                     hdr_Title = ascii_ignore title, hdr_Priority = priority,
                     hdr_Content_Type = pys ''text/plain; charset=utf-8'',
                     hdr_Tags = (if tags_truthy tags
                                 then Some (join (pys '','') (tags_clean tags)) else None)\<rparr>"
    by (auto simp: build_request_def Let_def split: sum.splits)
  have title: "hdr_Title req = filter (\<lambda>c. c < 128) title"
    by (simp add: req ascii_ignore_def)
  have tags: "hdr_Tags req = Some (join (pys '','') (map (filter (\<lambda>c. c < 128)) ts))"
    if "tags = TagList ts" "ts \<noteq> []" for ts
    using that by (simp add: req ascii_ignore_filter)
  have hdr: "\<forall>c \<in> set h. c < 128" if "hdr_Tags req = Some h" for h
  proof -
    from that have "h = join (pys '','') (tags_clean tags)"
      by (simp add: req split: if_splits)
    with join_ascii [OF comma_ascii tags_clean_ascii] show ?thesis by simp
  qed
  have ascii: "\<forall>c \<in> set (hdr_Title req). c < 128"
    by (simp add: title)
  have data: "utf8_encode message = Inr (req_data req)"
    by (simp add: body req)
  from title ascii tags hdr data show ?thesis
    by blast
qed



lemma critical_title_clean: "ascii_ignore critical_title = pys '' CRITICAL''"
  by (simp add: ascii_ignore_def critical_title_def pys_def)

lemma default_url:
  "NTFY_URL default_config @ pys ''/'' @ NTFY_TOPIC default_config
     = pys ''https://ntfy.sh/k8s-restart-tracker''"
  by (simp add: default_config_def pys_def)

lemma utf8_body: "utf8_encode (pys ''body'') = Inr (pys ''body'')"
  by (simp add: pys_def utf8_char_def)

lemma utf8_critical_title:
  "utf8_encode critical_title = Inr ([240, 159, 148, 180] @ pys '' CRITICAL'')"
  by (simp add: pys_def utf8_char_def critical_title_def)

lemma warning_tags_clean: "tags_clean warning_tags = [pys ''warning'', []]"
  by (simp add: warning_tags_def ascii_ignore_def pys_def)

lemma warning_tags_joined: "join (pys '','') (tags_clean warning_tags) = pys ''warning,''"
  by (simp add: warning_tags_clean) (simp add: pys_def)

lemma warning_tags_truthy: "tags_truthy warning_tags"
  by (simp add: warning_tags_def)

lemma body_request:
  "build_request default_config critical_title (pys ''body'') (pys ''default'') warning_tags
     = Inr \<lparr>req_url = pys ''https://ntfy.sh/k8s-restart-tracker'',
             req_data = pys ''body'',
             hdr_Title = pys '' CRITICAL'',
             hdr_Priority = pys ''default'',
             hdr_Content_Type = pys ''text/plain; charset=utf-8'',
             hdr_Tags = Some (pys ''warning,'')\<rparr>"
  by (simp only: build_request_def Let_def critical_title_clean default_url utf8_body
      warning_tags_joined warning_tags_truthy sum.case if_True)




text \<open>
  Claim C8. \<open>send_ntfy_notification\<close> is a total function to a Boolean and a list of
  effects: no exception leaves it. When the transport raises, when it answers with a
  status outside 200..299, and when building the request raises, the result is
  \<open>False\<close> and the last effect is an error record of the logger.
\<close>

theorem send_failure_is_false_and_logged:
  "(build_request cfg title message priority tags = Inl e \<longrightarrow>
      send_ntfy_notification cfg post title message priority tags
        = (False, [Log (Error_notification_exception e)]))
   \<and> (build_request cfg title message priority tags = Inr req \<and> post req = Raised e \<longrightarrow>
      send_ntfy_notification cfg post title message priority tags
        = (False, [Post req, Log (Error_notification_exception e)]))
   \<and> (build_request cfg title message priority tags = Inr req
        \<and> post req = Response code answer \<and> (code < 200 \<or> 299 < code) \<longrightarrow>
      send_ntfy_notification cfg post title message priority tags
        = (False, [Post req, Log (Error_notification_status code answer)]))
   \<and> is_error_record (Error_notification_exception e)
   \<and> is_error_record (Error_notification_status code answer)"
  by (simp add: send_ntfy_notification_def)


lemma surrogate_request:
  "build_request default_config critical_title [55296] (pys ''default'') warning_tags
     = Inl UnicodeEncodeError"
  by (simp add: build_request_def utf8_char_def)

text \<open>
  Claim C8 on a transport that raises, on a 503 answer and on a message with a lone
  surrogate.
\<close>

theorem send_failure_is_false_and_logged_witness:
  "send_ntfy_notification default_config (\<lambda>req. Raised (ExternalError (pys ''timed out'')))
     critical_title (pys ''body'') (pys ''default'') warning_tags
     = (False,
        [Post \<lparr>req_url = pys ''https://ntfy.sh/k8s-restart-tracker'',
                req_data = pys ''body'',
                hdr_Title = pys '' CRITICAL'',
                hdr_Priority = pys ''default'',
                hdr_Content_Type = pys ''text/plain; charset=utf-8'',
                hdr_Tags = Some (pys ''warning,'')\<rparr>,
         Log (Error_notification_exception (ExternalError (pys ''timed out'')))])
   \<and> send_ntfy_notification default_config (\<lambda>req. Response 503 (pys ''unavailable''))
       critical_title (pys ''body'') (pys ''default'') warning_tags
       = (False,
          [Post \<lparr>req_url = pys ''https://ntfy.sh/k8s-restart-tracker'',
                  req_data = pys ''body'',
                  hdr_Title = pys '' CRITICAL'',
                  hdr_Priority = pys ''default'',
                  hdr_Content_Type = pys ''text/plain; charset=utf-8'',
                  hdr_Tags = Some (pys ''warning,'')\<rparr>,
           Log (Error_notification_status 503 (pys ''unavailable''))])
   \<and> send_ntfy_notification default_config (\<lambda>req. Response 200 [])
       critical_title [55296] (pys ''default'') warning_tags
       = (False, [Log (Error_notification_exception UnicodeEncodeError)])"
proof -
  let ?req = "\<lparr>req_url = pys ''https://ntfy.sh/k8s-restart-tracker'',
                req_data = pys ''body'',
                hdr_Title = pys '' CRITICAL'',
                hdr_Priority = pys ''default'',
                hdr_Content_Type = pys ''text/plain; charset=utf-8'',
                hdr_Tags = Some (pys ''warning,'')\<rparr>"
  have 1: "send_ntfy_notification default_config
             (\<lambda>req. Raised (ExternalError (pys ''timed out'')))
             critical_title (pys ''body'') (pys ''default'') warning_tags
           = (False, [Post ?req,
                Log (Error_notification_exception (ExternalError (pys ''timed out'')))])"
    using send_failure_is_false_and_logged [where cfg = default_config
        and title = critical_title and message = "pys ''body''"
        and priority = "pys ''default''" and tags = warning_tags and req = ?req
        and post = "\<lambda>req. Raised (ExternalError (pys ''timed out''))"
        and e = "ExternalError (pys ''timed out'')"]
      body_request by blast
  have 2: "send_ntfy_notification default_config (\<lambda>req. Response 503 (pys ''unavailable''))
             critical_title (pys ''body'') (pys ''default'') warning_tags
           = (False, [Post ?req, Log (Error_notification_status 503 (pys ''unavailable''))])"
    using send_failure_is_false_and_logged [where cfg = default_config
        and title = critical_title and message = "pys ''body''"
        and priority = "pys ''default''" and tags = warning_tags and req = ?req
        and post = "\<lambda>req. Response 503 (pys ''unavailable'')"
        and code = 503 and answer = "pys ''unavailable''"]
      body_request by simp
  have 3: "send_ntfy_notification default_config (\<lambda>req. Response 200 [])
             critical_title [55296] (pys ''default'') warning_tags
           = (False, [Log (Error_notification_exception UnicodeEncodeError)])"
    using send_failure_is_false_and_logged [where cfg = default_config
        and title = critical_title and message = "[55296]"
        and priority = "pys ''default''" and tags = warning_tags
        and post = "\<lambda>req. Response 200 []" and e = UnicodeEncodeError]
      surrogate_request by blast
  from 1 2 3 show ?thesis by (intro conjI)
qed

subsection \<open>Frames of the event loop\<close>

lemma send_makes_no_log_fetch:
  "filter is_log_fetch (snd (send_ntfy_notification cfg post title message priority tags)) = []"
  by (simp add: send_ntfy_notification_def split: sum.splits http_result.splits)

lemma collect_keeps_history:
  "restart_history (fst (collect_log_snippet env st key namespace name cn)) = restart_history st"
  by (simp add: collect_log_snippet_def split: prod.splits option.splits)

lemma collect_other_key:
  "k \<noteq> key \<Longrightarrow>
   fmlookup (last_log_collected (fst (collect_log_snippet env st key namespace name cn))) k
     = fmlookup (last_log_collected st) k"
  by (simp add: collect_log_snippet_def split: prod.splits option.splits)

lemma collect_skipped:
  assumes "fmlookup (last_log_collected st) key = Some t"
    and "now_check env - t \<le> 300 * 1000000"
  shows "collect_log_snippet env st key namespace name cn = (st, [], [])"
  using assms by (simp add: collect_log_snippet_def)

lemma process_container_below:
  "restart_count_of c < RESTART_THRESHOLD cfg \<Longrightarrow>
   process_container cfg render env namespace name st c = (st, [], Inr ())"
  by (simp add: process_container_def Let_def)

lemma process_container_history:
  "RESTART_THRESHOLD cfg \<le> restart_count_of c \<Longrightarrow>
   restart_history (fst (process_container cfg render env namespace name st c))
     = restart_history (fst (analyze_restart_pattern cfg (now_analyze env) st
         (pod_key_of namespace name (container_name_of c)) (restart_count_of c)))"
  by (simp add: process_container_def Let_def collect_keeps_history
      split: prod.splits sum.splits)
    (metis collect_keeps_history fst_conv)


lemma process_container_last_log:
  assumes "pod_key_of namespace name (container_name_of c) = k
           \<longrightarrow> restart_count_of c < RESTART_THRESHOLD cfg"
  shows "fmlookup (last_log_collected (fst (process_container cfg render env namespace name st c))) k
           = fmlookup (last_log_collected st) k"
proof (cases "restart_count_of c < RESTART_THRESHOLD cfg")
  case True
  then show ?thesis by (simp add: process_container_below)
next
  case False
  with assms have ne: "k \<noteq> pod_key_of namespace name (container_name_of c)" by auto
  let ?a = "analyze_restart_pattern cfg (now_analyze env) st
              (pod_key_of namespace name (container_name_of c)) (restart_count_of c)"
  have a: "last_log_collected (fst ?a) = last_log_collected st"
    by (rule last_log_after_analyze)
  show ?thesis
  proof (cases ?a)
    case (Pair st1 res)
    with a have st1: "last_log_collected st1 = last_log_collected st" by simp
    show ?thesis
    proof (cases res)
      case (Inl e)
      with Pair False st1 show ?thesis
        by (simp add: process_container_def Let_def)
    next
      case (Inr rate)
      with Pair False st1 collect_other_key [OF ne, of env st1 namespace name "container_name_of c"]
      show ?thesis
        by (auto simp: process_container_def Let_def split: prod.splits)
    qed
  qed
qed

lemma process_container_other_history:
  assumes "pod_key_of namespace name (container_name_of c) = k
           \<longrightarrow> restart_count_of c < RESTART_THRESHOLD cfg"
  shows "fmlookup (restart_history (fst (process_container cfg render env namespace name st c))) k
           = fmlookup (restart_history st) k"
proof (cases "restart_count_of c < RESTART_THRESHOLD cfg")
  case True
  then show ?thesis by (simp add: process_container_below)
next
  case False
  with assms have "k \<noteq> pod_key_of namespace name (container_name_of c)" by auto
  with False show ?thesis
    by (simp add: process_container_history other_key_after_analyze)
qed

lemma process_containers_frame:
  assumes "\<forall>c \<in> set cs. pod_key_of namespace name (container_name_of c) = k
             \<longrightarrow> restart_count_of c < RESTART_THRESHOLD cfg"
  shows "fmlookup (restart_history
             (fst (process_containers cfg render outside i namespace name st cs))) k
           = fmlookup (restart_history st) k
         \<and> fmlookup (last_log_collected
             (fst (process_containers cfg render outside i namespace name st cs))) k
           = fmlookup (last_log_collected st) k"
  using assms
proof (induction cs arbitrary: st i)
  case Nil
  then show ?case by simp
next
  case (Cons c cs)
  let ?p = "process_container cfg render (outside i) namespace name st c"
  have c: "pod_key_of namespace name (container_name_of c) = k
           \<longrightarrow> restart_count_of c < RESTART_THRESHOLD cfg"
    using Cons.prems by simp
  note h = process_container_other_history [OF c, of render "outside i" st]
    and l = process_container_last_log [OF c, of render "outside i" st]
  obtain st1 effs1 r where p: "?p = (st1, effs1, r)"
    by (cases ?p) auto
  show ?case
  proof (cases r)
    case (Inl e)
    with p h l show ?thesis by simp
  next
    case (Inr u)
    have "\<forall>c \<in> set cs. pod_key_of namespace name (container_name_of c) = k
             \<longrightarrow> restart_count_of c < RESTART_THRESHOLD cfg"
      using Cons.prems by simp
    from Cons.IH [OF this, of "Suc i" st1] p Inr h l show ?thesis
      by (auto split: prod.splits)
  qed
qed

lemma process_pod_event_state:
  "fst (process_pod_event cfg render outside st (Pod snapshot))
     = fst (process_containers cfg render outside 0 (namespace_of snapshot) (name_of snapshot)
              st (containerStatuses snapshot))"
  by (simp add: process_pod_event_def Let_def split: prod.splits sum.splits)


subsection \<open>The state after the first alert\<close>

lemma example_name: "container_name_of (example_container n) = pys ''app''"
  by (simp add: container_name_of_def example_container_def)

lemma example_key: "pod_key_of (pys ''prod'') (pys ''api-7f'') (pys ''app'') = scenario_key"
  by (simp add: scenario_key_def)

lemma example_count: "restart_count_of (example_container n) = n"
  by (simp add: restart_count_of_def example_container_def)

lemma scenario_t0_cutoff:
  "cutoff_time default_config scenario_t0 = Inr (scenario_t0 - 60 * 60000000)"
  by (simp add: scenario_defs)

lemma after_first_alert_history:
  "fmlookup (restart_history after_first_alert) scenario_key
     = Some [\<lparr>timestamp = scenario_t0, restart_count = 6\<rparr>]"
proof -
  have "RESTART_THRESHOLD default_config \<le> restart_count_of (example_container 6)"
    by (simp add: example_count default_config_def)
  from process_container_history [OF this]
  have "restart_history after_first_alert
          = restart_history (fst (analyze_restart_pattern default_config scenario_t0
              initial_state scenario_key 6))"
    by (simp add: after_first_alert_def example_name example_key example_count example_env_def)
  then show ?thesis
    by (simp add: analyze_restart_pattern_def scenario_t0_cutoff history_of_def
        initial_state_def Let_def)
qed

lemma after_first_alert_keys: "fmdom (restart_history after_first_alert) = {|scenario_key|}"
proof -
  have "RESTART_THRESHOLD default_config \<le> restart_count_of (example_container 6)"
    by (simp add: example_count default_config_def)
  from process_container_history [OF this]
  have "restart_history after_first_alert
          = restart_history (fst (analyze_restart_pattern default_config scenario_t0
              initial_state scenario_key 6))"
    by (simp add: after_first_alert_def example_name example_key example_count example_env_def)
  then show ?thesis
    by (simp add: analyze_restart_pattern_def scenario_t0_cutoff history_of_def
        initial_state_def Let_def)
qed

lemma pys_empty_iff: "pys s = [] \<longleftrightarrow> s = []"
  by (simp add: pys_def)

lemma process_container_collect:
  assumes "RESTART_THRESHOLD cfg \<le> restart_count_of c"
    and "analyze_restart_pattern cfg (now_analyze env) st
           (pod_key_of namespace name (container_name_of c)) (restart_count_of c)
         = (st1, Inr rate)"
  shows "fst (process_container cfg render env namespace name st c)
           = fst (collect_log_snippet env st1
                    (pod_key_of namespace name (container_name_of c)) namespace name
                    (container_name_of c))
         \<and> filter is_log_fetch (fst (snd (process_container cfg render env namespace name st c)))
           = filter is_log_fetch (snd (snd (collect_log_snippet env st1
                    (pod_key_of namespace name (container_name_of c)) namespace name
                    (container_name_of c))))"
  using assms
  by (simp add: process_container_def Let_def send_makes_no_log_fetch split: prod.splits)

lemma first_analyze:
  "analyze_restart_pattern default_config scenario_t0 initial_state scenario_key 6
     = (\<lparr>restart_history =
            fmupd scenario_key [\<lparr>timestamp = scenario_t0, restart_count = 6\<rparr>]
              (fmupd scenario_key [\<lparr>timestamp = scenario_t0, restart_count = 6\<rparr>] fmempty),
          last_log_collected = fmempty\<rparr>, Inr 0)"
  by (simp add: analyze_restart_pattern_def scenario_t0_cutoff history_of_def
      initial_state_def restart_rate_def Let_def)

lemma first_collect:
  "collect_log_snippet (example_env scenario_t0)
     \<lparr>restart_history = h, last_log_collected = fmempty\<rparr> scenario_key
     (pys ''prod'') (pys ''api-7f'') (pys ''app'')
   = (\<lparr>restart_history = h,
        last_log_collected = fmupd scenario_key (scenario_t0 + 2000000) fmempty\<rparr>,
      [10] @ pys ''=== '' @ [218] @ pys ''LTIMAS LINHAS DO LOG ==='' @ [10]
        @ pys ''panic: boom'' @ [10],
      [Kubectl_logs (pys ''prod'') (pys ''api-7f'') (pys ''app'')])"
  by (simp add: collect_log_snippet_def get_pod_logs_def example_env_def pys_empty_iff)
    (simp add: pys_def)

lemma first_alert:
  "fmlookup (last_log_collected after_first_alert) scenario_key = Some (scenario_t0 + 2000000)
   \<and> filter is_log_fetch (fst (snd (process_container default_config (\<lambda>a. [])
          (example_env scenario_t0) (pys ''prod'') (pys ''api-7f'') initial_state
          (example_container 6))))
       = [Kubectl_logs (pys ''prod'') (pys ''api-7f'') (pys ''app'')]"
proof -
  have t: "RESTART_THRESHOLD default_config \<le> restart_count_of (example_container 6)"
    by (simp add: example_count default_config_def)
  have a: "analyze_restart_pattern default_config (now_analyze (example_env scenario_t0))
             initial_state
             (pod_key_of (pys ''prod'') (pys ''api-7f'') (container_name_of (example_container 6)))
             (restart_count_of (example_container 6))
           = (\<lparr>restart_history =
                  fmupd scenario_key [\<lparr>timestamp = scenario_t0, restart_count = 6\<rparr>]
                    (fmupd scenario_key [\<lparr>timestamp = scenario_t0, restart_count = 6\<rparr>]
                       fmempty),
                last_log_collected = fmempty\<rparr>, Inr 0)"
    by (simp add: example_name example_key example_count first_analyze example_env_def)
  from process_container_collect [OF t a, of "\<lambda>a. []"] show ?thesis
    by (simp add: after_first_alert_def example_key example_name first_collect)
qed


subsection \<open>The rate limit of the log fetch\<close>

lemma skipped_within_300_seconds:
  assumes "fmlookup (last_log_collected st) (pod_key_of namespace name (container_name_of c))
             = Some t"
    and "now_check env - t \<le> 300 * 1000000"
  shows "filter is_log_fetch
           (fst (snd (process_container cfg render env namespace name st c))) = []
         \<and> last_log_collected (fst (process_container cfg render env namespace name st c))
             = last_log_collected st"
proof (cases "restart_count_of c < RESTART_THRESHOLD cfg")
  case True
  then show ?thesis by (simp add: process_container_below)
next
  case False
  let ?key = "pod_key_of namespace name (container_name_of c)"
  let ?a = "analyze_restart_pattern cfg (now_analyze env) st ?key (restart_count_of c)"
  obtain st1 res where a: "?a = (st1, res)"
    by (cases ?a) auto
  with last_log_after_analyze [of cfg "now_analyze env" st ?key "restart_count_of c"]
  have st1: "last_log_collected st1 = last_log_collected st" by simp
  show ?thesis
  proof (cases res)
    case (Inl e)
    with a False st1 show ?thesis
      by (simp add: process_container_def Let_def)
  next
    case (Inr rate)
    from assms(1) st1 have "fmlookup (last_log_collected st1) ?key = Some t" by simp
    from collect_skipped [OF this assms(2), of namespace name "container_name_of c"]
      a Inr False st1 show ?thesis
      by (simp add: process_container_def Let_def send_makes_no_log_fetch)
  qed
qed

lemma collect_records_fetch:
  assumes "snd (snd (collect_log_snippet env st key namespace name cn)) \<noteq> []"
    and "fst (get_pod_logs (kubectl_run env) namespace name cn) \<noteq> []"
  shows "fmlookup (last_log_collected (fst (collect_log_snippet env st key namespace name cn)))
           key = Some (now_collected env)"
  using assms
  by (auto simp: collect_log_snippet_def split: if_splits prod.splits option.splits)

lemma fetch_with_lines_is_recorded:
  assumes "filter is_log_fetch
             (fst (snd (process_container cfg render env namespace name st c))) \<noteq> []"
    and "fst (get_pod_logs (kubectl_run env) namespace name (container_name_of c)) \<noteq> []"
  shows "fmlookup (last_log_collected (fst (process_container cfg render env namespace name st c)))
           (pod_key_of namespace name (container_name_of c)) = Some (now_collected env)"
proof -
  let ?key = "pod_key_of namespace name (container_name_of c)"
  let ?a = "analyze_restart_pattern cfg (now_analyze env) st ?key (restart_count_of c)"
  from assms(1) have t: "RESTART_THRESHOLD cfg \<le> restart_count_of c"
    by (cases "restart_count_of c < RESTART_THRESHOLD cfg")
      (simp_all add: process_container_below)
  obtain st1 res where a: "?a = (st1, res)"
    by (cases ?a) auto
  show ?thesis
  proof (cases res)
    case (Inl e)
    with a t assms(1) show ?thesis
      by (simp add: process_container_def Let_def)
  next
    case (Inr rate)
    note pc = process_container_collect [OF t a [unfolded Inr], of render]
    with assms(1)
    have "snd (snd (collect_log_snippet env st1 ?key namespace name (container_name_of c)))
            \<noteq> []"
      by auto
    from collect_records_fetch [OF this assms(2)] pc show ?thesis
      by simp
  qed
qed

text \<open>
  Claim C7, for the processing of one container status. When \<open>last_log_collected\<close>
  holds a timestamp for the key and the clock of the check is at most 300 seconds
  (300000000 microseconds) after it, no log fetch is made and the map is unchanged. And
  a fetch that returned log lines is recorded in \<open>last_log_collected\<close> under the key,
  with the clock reading taken after the fetch.
\<close>

theorem log_fetch_at_most_once_in_300_seconds:
  "(fmlookup (last_log_collected st) (pod_key_of namespace name (container_name_of c)) = Some t
      \<and> now_check env - t \<le> 300 * 1000000 \<longrightarrow>
      filter is_log_fetch (fst (snd (process_container cfg render env namespace name st c))) = []
      \<and> last_log_collected (fst (process_container cfg render env namespace name st c))
          = last_log_collected st)
   \<and> (filter is_log_fetch
         (fst (snd (process_container cfg render env namespace name st c))) \<noteq> []
       \<and> fst (get_pod_logs (kubectl_run env) namespace name (container_name_of c)) \<noteq> []
       \<longrightarrow>
       fmlookup (last_log_collected (fst (process_container cfg render env namespace name st c)))
         (pod_key_of namespace name (container_name_of c)) = Some (now_collected env))"
  using skipped_within_300_seconds [of st namespace name c t env cfg render]
    fetch_with_lines_is_recorded [of cfg render env namespace name st c]
  by blast

text \<open>
  Claim C7 on two alerts for one key: the first fetches and records, the second, 298
  seconds after the recorded time, does not fetch.
\<close>

theorem log_fetch_at_most_once_in_300_seconds_witness:
  "filter is_log_fetch (fst (snd (process_container default_config (\<lambda>a. [])
          (example_env scenario_t0) (pys ''prod'') (pys ''api-7f'') initial_state
          (example_container 6))))
       = [Kubectl_logs (pys ''prod'') (pys ''api-7f'') (pys ''app'')]
   \<and> fst (get_pod_logs (kubectl_run (example_env scenario_t0)) (pys ''prod'') (pys ''api-7f'')
            (pys ''app'')) = pys ''panic: boom''
   \<and> fmlookup (last_log_collected after_first_alert) scenario_key
       = Some (now_collected (example_env scenario_t0))
   \<and> now_check (example_env (scenario_t0 + 300000000))
        - now_collected (example_env scenario_t0) = 298000000
   \<and> filter is_log_fetch (fst (snd (process_container default_config (\<lambda>a. [])
          (example_env (scenario_t0 + 300000000)) (pys ''prod'') (pys ''api-7f'')
          after_first_alert (example_container 7)))) = []
   \<and> last_log_collected (fst (process_container default_config (\<lambda>a. [])
          (example_env (scenario_t0 + 300000000)) (pys ''prod'') (pys ''api-7f'')
          after_first_alert (example_container 7)))
       = last_log_collected after_first_alert"
proof -
  note limit = log_fetch_at_most_once_in_300_seconds [where cfg = default_config
      and render = "\<lambda>a. []" and namespace = "pys ''prod''" and name = "pys ''api-7f''"]
  have f: "filter is_log_fetch (fst (snd (process_container default_config (\<lambda>a. [])
          (example_env scenario_t0) (pys ''prod'') (pys ''api-7f'') initial_state
          (example_container 6))))
       = [Kubectl_logs (pys ''prod'') (pys ''api-7f'') (pys ''app'')]"
    by (simp add: first_alert)
  have l: "fst (get_pod_logs (kubectl_run (example_env scenario_t0)) (pys ''prod'')
             (pys ''api-7f'') (pys ''app'')) = pys ''panic: boom''"
    by (simp add: get_pod_logs_def example_env_def)
  have r: "fmlookup (last_log_collected after_first_alert) scenario_key
             = Some (now_collected (example_env scenario_t0))"
    using limit [where c = "example_container 6" and env = "example_env scenario_t0"
        and st = initial_state] f l
    by (simp add: example_name example_key after_first_alert_def pys_empty_iff)
  have d: "now_check (example_env (scenario_t0 + 300000000))
             - now_collected (example_env scenario_t0) = 298000000"
    by (simp add: example_env_def)
  have "filter is_log_fetch (fst (snd (process_container default_config (\<lambda>a. [])
          (example_env (scenario_t0 + 300000000)) (pys ''prod'') (pys ''api-7f'')
          after_first_alert (example_container 7)))) = []
     \<and> last_log_collected (fst (process_container default_config (\<lambda>a. [])
          (example_env (scenario_t0 + 300000000)) (pys ''prod'') (pys ''api-7f'')
          after_first_alert (example_container 7)))
       = last_log_collected after_first_alert"
    using limit [where c = "example_container 7"
        and env = "example_env (scenario_t0 + 300000000)" and st = after_first_alert
        and t = "now_collected (example_env scenario_t0)"] r d
    by (simp add: example_name example_key)
  with f l r d show ?thesis by (intro conjI) simp_all
qed

subsection \<open>The threshold\<close>














subsection \<open>The HTTP handlers\<close>

text \<open>
  Claim C6. When the decoder raises on the request, \<open>handle_pod_event\<close> answers 500
  with the status "error" and the text of the exception as message, logs the error, and
  returns the state it was given: \<open>restart_history\<close> and \<open>last_log_collected\<close> are
  unchanged.
\<close>

theorem unparseable_event_is_500_without_mutation:
  assumes "from_http request = Inl msg"
  shows "handle_pod_event cfg render outside from_http st request
         = (st, [Log (Error_process_request msg)],
            \<lparr>status_code = 500, body_status = pys ''error'', body_message = Some msg\<rparr>)"
  using assms by (simp add: handle_pod_event_def)

text \<open>
  Claim C6 on a state that holds an observation and a log timestamp.
\<close>

theorem unparseable_event_is_500_without_mutation_witness:
  "example_from_http [] = Inl (pys ''Failed to read specversion'')
   \<and> handle_pod_event default_config (\<lambda>a. []) (\<lambda>i. example_env scenario_t0)
       example_from_http after_first_alert []
     = (after_first_alert,
        [Log (Error_process_request (pys ''Failed to read specversion''))],
        \<lparr>status_code = 500, body_status = pys ''error'',
         body_message = Some (pys ''Failed to read specversion'')\<rparr>)"
proof -
  have bad: "example_from_http [] = Inl (pys ''Failed to read specversion'')"
    by (simp add: example_from_http_def)
  from bad unparseable_event_is_500_without_mutation [where from_http = example_from_http
      and request = "[]" and msg = "pys ''Failed to read specversion''", OF bad]
  show ?thesis
    by (rule conjI)
qed


subsection \<open>Keys that receive no further events\<close>

lemma analyze_keeps_keys:
  "fmdom (restart_history st)
     |\<subseteq>| fmdom (restart_history (fst (analyze_restart_pattern cfg now st k rc)))"
  by (auto simp: analyze_restart_pattern_def Let_def split: sum.splits)

lemma record_calls_other_key:
  assumes "\<forall>c \<in> set calls. fst c \<noteq> k'"
  shows "fmlookup (restart_history (record_calls cfg calls st)) k'
           = fmlookup (restart_history st) k'"
  using assms
proof (induction calls arbitrary: st)
  case Nil
  then show ?case by simp
next
  case (Cons call calls)
  obtain k now rc where call: "call = (k, now, rc)"
    by (cases call) auto
  with Cons.prems have "k' \<noteq> k" by auto
  from other_key_after_analyze [OF this, of cfg now st rc] Cons show ?case
    by (simp add: call)
qed

lemma record_calls_keeps_keys:
  "fmdom (restart_history st) |\<subseteq>| fmdom (restart_history (record_calls cfg calls st))"
proof (induction calls arbitrary: st)
  case Nil
  then show ?case by simp
next
  case (Cons call calls)
  obtain k now rc where call: "call = (k, now, rc)"
    by (cases call) auto
  from analyze_keeps_keys [of st cfg now k rc]
    Cons [of "fst (analyze_restart_pattern cfg now st k rc)"]
  show ?case
    by (auto simp: call)
qed

lemma stats_lookup:
  "fmlookup (fst (stats st)) k =
     (case fmlookup (restart_history st) k of
        None \<Rightarrow> None
      | Some h \<Rightarrow>
          if h = [] then None
          else Some \<lparr>total_events = length h, last_restart_count = restart_count (last h),
                     last_seen = timestamp (last h)\<rparr>)"
  by (simp add: stats_def history_of_def split: option.splits)

text \<open>
  Claim C10. A run of calls of \<open>analyze_restart_pattern\<close>, none for the key \<open>k'\<close>,
  leaves the list of \<open>k'\<close> as it was, whatever the age of its observations; the
  entry of \<open>k'\<close> in \<^verbatim>\<open>/stats\<close> is the same, \<open>k'\<close> is still a key of the dictionary
  that \<^verbatim>\<open>/health\<close> counts, and that count does not go down. An event none of whose
  container statuses has the key \<open>k'\<close> leaves the list of \<open>k'\<close> as it was, too.
\<close>

theorem record_touches_only_its_key:
  assumes "\<forall>c \<in> set calls. fst c \<noteq> k'"
  shows "fmlookup (restart_history (record_calls cfg calls st)) k'
           = fmlookup (restart_history st) k'
         \<and> fmlookup (fst (stats (record_calls cfg calls st))) k' = fmlookup (fst (stats st)) k'
         \<and> (k' |\<in>| fmdom (restart_history st)
              \<longrightarrow> k' |\<in>| fmdom (restart_history (record_calls cfg calls st)))
         \<and> tracked_pods (fst (health cfg st))
             \<le> tracked_pods (fst (health cfg (record_calls cfg calls st)))
         \<and> ((\<forall>c \<in> set (containerStatuses snapshot).
                pod_key_of (namespace_of snapshot) (name_of snapshot) (container_name_of c)
                  \<noteq> k') \<longrightarrow>
              fmlookup (restart_history
                  (fst (process_pod_event cfg render outside st (Pod snapshot)))) k'
                = fmlookup (restart_history st) k')"
proof -
  note same = record_calls_other_key [OF assms, of cfg st]
  note keys = record_calls_keeps_keys [of st cfg calls]
  have "fmlookup (fst (stats (record_calls cfg calls st))) k' = fmlookup (fst (stats st)) k'"
    by (simp only: stats_lookup same)
  moreover have "tracked_pods (fst (health cfg st))
                   \<le> tracked_pods (fst (health cfg (record_calls cfg calls st)))"
    using keys by (simp add: health_def fcard_mono)
  moreover have "fmlookup (restart_history
                    (fst (process_pod_event cfg render outside st (Pod snapshot)))) k'
                 = fmlookup (restart_history st) k'"
    if "\<forall>c \<in> set (containerStatuses snapshot).
          pod_key_of (namespace_of snapshot) (name_of snapshot) (container_name_of c) \<noteq> k'"
    using that process_containers_frame [of "containerStatuses snapshot"
        "namespace_of snapshot" "name_of snapshot" k' cfg render outside 0 st]
    by (simp add: process_pod_event_state)
  ultimately show ?thesis
    using same keys by auto
qed

lemma other_key_differs:
  "pod_key_of (pys ''prod'') (pys ''web-5c'') (pys ''app'') \<noteq> scenario_key"
  by (simp add: pod_key_of_def scenario_key_def pys_def)

text \<open>
  Claim C10 on an observation ten days old under a 60-minute window: after a call for
  another key it is still stored, reported by \<^verbatim>\<open>/stats\<close> and counted by \<^verbatim>\<open>/health\<close>.
\<close>

theorem record_touches_only_its_key_witness:
  "map fst other_key_calls = [pod_key_of (pys ''prod'') (pys ''web-5c'') (pys ''app'')]
   \<and> pod_key_of (pys ''prod'') (pys ''web-5c'') (pys ''app'') \<noteq> scenario_key
   \<and> cutoff_time default_config (scenario_t0 + 10 * 86400 * 1000000)
       = Inr (scenario_t0 + 10 * 86400 * 1000000 - 60 * 60000000)
   \<and> scenario_t0 < scenario_t0 + 10 * 86400 * 1000000 - 60 * 60000000
   \<and> fmlookup (restart_history (record_calls default_config other_key_calls after_first_alert))
         scenario_key
       = Some [\<lparr>timestamp = scenario_t0, restart_count = 6\<rparr>]
   \<and> fmlookup (fst (stats (record_calls default_config other_key_calls after_first_alert)))
         scenario_key
       = Some \<lparr>total_events = 1, last_restart_count = 6, last_seen = scenario_t0\<rparr>
   \<and> scenario_key
       |\<in>| fmdom (restart_history (record_calls default_config other_key_calls
                      after_first_alert))
   \<and> tracked_pods (fst (health default_config after_first_alert)) = 1
   \<and> tracked_pods (fst (health default_config
         (record_calls default_config other_key_calls after_first_alert))) = 2
   \<and> fmlookup (restart_history (fst (process_pod_event default_config (\<lambda>a. [])
          (\<lambda>i. example_env (scenario_t0 + 10 * 86400 * 1000000)) after_first_alert
          (Pod other_snapshot)))) scenario_key
       = Some [\<lparr>timestamp = scenario_t0, restart_count = 6\<rparr>]"
proof -
  have keys: "map fst other_key_calls
                = [pod_key_of (pys ''prod'') (pys ''web-5c'') (pys ''app'')]"
    by (simp add: other_key_calls_def)
  have others: "\<forall>c \<in> set other_key_calls. fst c \<noteq> scenario_key"
    by (simp add: other_key_calls_def other_key_differs)
  have cutoff: "cutoff_time default_config (scenario_t0 + 10 * 86400 * 1000000)
                  = Inr (scenario_t0 + 10 * 86400 * 1000000 - 60 * 60000000)"
    by (simp add: scenario_defs)
  have stale: "scenario_t0 < scenario_t0 + 10 * 86400 * 1000000 - 60 * 60000000"
    by simp
  note frame = record_touches_only_its_key [OF others, of default_config after_first_alert]
  have present: "scenario_key |\<in>| fmdom (restart_history after_first_alert)"
    by (simp add: after_first_alert_keys)
  have h: "fmlookup (restart_history (record_calls default_config other_key_calls
                       after_first_alert)) scenario_key
           = Some [\<lparr>timestamp = scenario_t0, restart_count = 6\<rparr>]"
    using frame by (simp add: after_first_alert_history)
  have s: "fmlookup (fst (stats (record_calls default_config other_key_calls
                       after_first_alert))) scenario_key
           = Some \<lparr>total_events = 1, last_restart_count = 6, last_seen = scenario_t0\<rparr>"
    using frame by (simp add: stats_lookup after_first_alert_history)
  have d: "scenario_key |\<in>| fmdom (restart_history (record_calls default_config
             other_key_calls after_first_alert))"
    using frame present by blast
  have one: "tracked_pods (fst (health default_config after_first_alert)) = 1"
    by (simp add: health_def after_first_alert_keys fcard_finsert_if)
  have "fmdom (restart_history (record_calls default_config other_key_calls after_first_alert))
          = {|pod_key_of (pys ''prod'') (pys ''web-5c'') (pys ''app''), scenario_key|}"
    by (simp add: other_key_calls_def analyze_restart_pattern_def Let_def
        after_first_alert_keys split: sum.splits)
  then have two: "tracked_pods (fst (health default_config
         (record_calls default_config other_key_calls after_first_alert))) = 2"
    by (simp add: health_def other_key_differs fcard_finsert_if)
  have "\<forall>c \<in> set (containerStatuses other_snapshot).
          pod_key_of (namespace_of other_snapshot) (name_of other_snapshot)
            (container_name_of c) \<noteq> scenario_key"
    by (simp add: other_snapshot_def namespace_of_def name_of_def example_name
        other_key_differs)
  with frame [where snapshot = other_snapshot]
  have e: "fmlookup (restart_history (fst (process_pod_event default_config (\<lambda>a. [])
          (\<lambda>i. example_env (scenario_t0 + 10 * 86400 * 1000000)) after_first_alert
          (Pod other_snapshot)))) scenario_key
       = Some [\<lparr>timestamp = scenario_t0, restart_count = 6\<rparr>]"
    by (simp add: after_first_alert_history)
  from keys other_key_differs cutoff stale h s d one two e show ?thesis
    by (intro conjI)
qed


subsection \<open>Severity\<close>

lemma priority_names_distinct:
  "pys ''default'' \<noteq> pys ''high''" "pys ''default'' \<noteq> pys ''max''" "pys ''high'' \<noteq> pys ''max''"
  by (simp_all add: pys_def)

lemma severity_cases:
  "severity rc =
     (if rc \<le> 10 then pys ''default'' else if rc \<le> 20 then pys ''high'' else pys ''max'')"
  by (simp add: severity_def Let_def)

lemma collect_posts_nothing:
  "Post req \<notin> set (snd (snd (collect_log_snippet env st key namespace name cn)))"
  by (auto simp: collect_log_snippet_def get_pod_logs_def
      split: if_splits prod.splits option.splits proc_result.splits)

lemma sent_priority:
  "Post req \<in> set (snd (send_ntfy_notification cfg post title message priority tags))
   \<Longrightarrow> hdr_Priority req = priority"
  by (auto simp: send_ntfy_notification_def build_request_def Let_def
      split: sum.splits http_result.splits if_splits)

lemma posted_priority:
  assumes "Post req \<in> set (fst (snd (process_container cfg render env namespace name st c)))"
  shows "hdr_Priority req = severity (restart_count_of c)"
proof (cases "RESTART_THRESHOLD cfg \<le> restart_count_of c")
  case False
  with assms show ?thesis by (simp add: process_container_def Let_def)
next
  case True
  let ?key = "pod_key_of namespace name (container_name_of c)"
  obtain st1 res where a: "analyze_restart_pattern cfg (now_analyze env) st ?key
                             (restart_count_of c) = (st1, res)"
    by (cases "analyze_restart_pattern cfg (now_analyze env) st ?key (restart_count_of c)") auto
  show ?thesis
  proof (cases res)
    case (Inl e)
    with assms True a show ?thesis by (simp add: process_container_def Let_def)
  next
    case (Inr rate)
    obtain st2 snippet effs
      where c: "collect_log_snippet env st1 ?key namespace name (container_name_of c)
                = (st2, snippet, effs)"
      by (cases "collect_log_snippet env st1 ?key namespace name (container_name_of c)") auto
    from collect_posts_nothing [of req env st1 ?key namespace name "container_name_of c"] c
    have "Post req \<notin> set effs" by simp
    with assms True a Inr c show ?thesis
      by (auto simp: process_container_def Let_def dest: sent_priority)
  qed
qed

text \<open>
  Claim C3. The priority is "default" up to and including 10, "high" from 11 up to and
  including 20 and "max" above 20; the three names are different strings; a larger
  count never has a lower priority on the notifier's scale; and the Priority header of
  every request posted for a container status is the priority of its restart count.
\<close>

theorem severity_boundaries_monotonic:
  "severity rc =
     (if rc \<le> 10 then pys ''default'' else if rc \<le> 20 then pys ''high'' else pys ''max'')
   \<and> (a \<le> b \<longrightarrow> priority_rank (severity a) \<le> priority_rank (severity b))
   \<and> severity 6 = pys ''default'' \<and> severity 10 = pys ''default''
   \<and> severity 11 = pys ''high'' \<and> severity 20 = pys ''high''
   \<and> severity 21 = pys ''max''
   \<and> pys ''default'' \<noteq> pys ''high'' \<and> pys ''high'' \<noteq> pys ''max''
   \<and> pys ''default'' \<noteq> pys ''max''
   \<and> (Post req \<in> set (fst (snd (process_container cfg render env namespace name st c)))
        \<longrightarrow> hdr_Priority req = severity (restart_count_of c))"
proof -
  have "a \<le> b \<longrightarrow> priority_rank (severity a) \<le> priority_rank (severity b)"
    using priority_names_distinct by (simp add: severity_cases priority_rank_def)
  moreover have "Post req \<in> set (fst (snd (process_container cfg render env namespace name st c)))
        \<longrightarrow> hdr_Priority req = severity (restart_count_of c)"
    by (simp add: posted_priority)
  ultimately show ?thesis
    using priority_names_distinct by (simp add: severity_cases)
qed

lemma container_effects:
  assumes "RESTART_THRESHOLD cfg \<le> restart_count_of c"
    and "analyze_restart_pattern cfg (now_analyze env) st
           (pod_key_of namespace name (container_name_of c)) (restart_count_of c)
         = (st1, Inr rate)"
    and "collect_log_snippet env st1 (pod_key_of namespace name (container_name_of c))
           namespace name (container_name_of c) = (st2, snippet, effs)"
  shows "fst (snd (process_container cfg render env namespace name st c))
         = effs @ snd (send_ntfy_notification cfg (requests_post env)
             (pys ''ALERT: Pod Restarts - '' @ CLUSTER_NAME cfg)
             (render \<lparr>alert_namespace = namespace, alert_name = name, alert_container = c,
                       alert_restart_count = restart_count_of c, alert_restart_rate = rate,
                       alert_log_snippet = snippet\<rparr>)
             (severity (restart_count_of c))
             (TagList [pys ''warning'', pys ''rotating_light'']))"
  using assms by (simp add: process_container_def Let_def)

lemma alert_request:
  "build_request default_config (pys ''ALERT: Pod Restarts - '' @ CLUSTER_NAME default_config)
     [] (pys ''default'') (TagList [pys ''warning'', pys ''rotating_light''])
   = Inr \<lparr>req_url = pys ''https://ntfy.sh/k8s-restart-tracker'',
           req_data = [],
           hdr_Title = pys ''ALERT: Pod Restarts - kube.chalkan3.com.br'',
           hdr_Priority = pys ''default'',
           hdr_Content_Type = pys ''text/plain; charset=utf-8'',
           hdr_Tags = Some (pys ''warning,rotating_light'')\<rparr>"
  by (simp add: build_request_def ascii_ignore_def default_config_def pys_def)

text \<open>
  Claim C3 across the first boundary, 10 and 11, and on the request posted for a count
  of 6.
\<close>

theorem severity_boundaries_monotonic_witness:
  "(10::int) \<le> 11 \<and> priority_rank (severity 10) = 3 \<and> priority_rank (severity 11) = 4
   \<and> priority_rank (severity 10) \<le> priority_rank (severity 11)
   \<and> Post \<lparr>req_url = pys ''https://ntfy.sh/k8s-restart-tracker'',
             req_data = [],
             hdr_Title = pys ''ALERT: Pod Restarts - kube.chalkan3.com.br'',
             hdr_Priority = severity 6,
             hdr_Content_Type = pys ''text/plain; charset=utf-8'',
             hdr_Tags = Some (pys ''warning,rotating_light'')\<rparr>
       \<in> set (fst (snd (process_container default_config (\<lambda>a. [])
                (example_env scenario_t0) (pys ''prod'') (pys ''api-7f'') initial_state
                (example_container 6))))
   \<and> severity 6 = pys ''default''"
proof -
  let ?req = "\<lparr>req_url = pys ''https://ntfy.sh/k8s-restart-tracker'',
             req_data = [],
             hdr_Title = pys ''ALERT: Pod Restarts - kube.chalkan3.com.br'',
             hdr_Priority = pys ''default'',
             hdr_Content_Type = pys ''text/plain; charset=utf-8'',
             hdr_Tags = Some (pys ''warning,rotating_light'')\<rparr>"
  let ?effs = "fst (snd (process_container default_config (\<lambda>a. [])
                (example_env scenario_t0) (pys ''prod'') (pys ''api-7f'') initial_state
                (example_container 6)))"
  have r: "priority_rank (severity 10) = 3" "priority_rank (severity 11) = 4"
    using priority_names_distinct by (simp_all add: severity_cases priority_rank_def)
  have six: "severity 6 = pys ''default''"
    by (simp add: severity_cases)
  have t: "RESTART_THRESHOLD default_config \<le> restart_count_of (example_container 6)"
    by (simp add: example_count default_config_def)
  have a: "analyze_restart_pattern default_config (now_analyze (example_env scenario_t0))
             initial_state
             (pod_key_of (pys ''prod'') (pys ''api-7f'') (container_name_of (example_container 6)))
             (restart_count_of (example_container 6))
           = (\<lparr>restart_history =
                  fmupd scenario_key [\<lparr>timestamp = scenario_t0, restart_count = 6\<rparr>]
                    (fmupd scenario_key [\<lparr>timestamp = scenario_t0, restart_count = 6\<rparr>]
                       fmempty),
                last_log_collected = fmempty\<rparr>, Inr 0)"
    by (simp add: example_name example_key example_count first_analyze example_env_def)
  have c: "collect_log_snippet (example_env scenario_t0)
             \<lparr>restart_history =
                  fmupd scenario_key [\<lparr>timestamp = scenario_t0, restart_count = 6\<rparr>]
                    (fmupd scenario_key [\<lparr>timestamp = scenario_t0, restart_count = 6\<rparr>]
                       fmempty),
                last_log_collected = fmempty\<rparr>
             (pod_key_of (pys ''prod'') (pys ''api-7f'') (container_name_of (example_container 6)))
             (pys ''prod'') (pys ''api-7f'') (container_name_of (example_container 6))
           = (\<lparr>restart_history =
                  fmupd scenario_key [\<lparr>timestamp = scenario_t0, restart_count = 6\<rparr>]
                    (fmupd scenario_key [\<lparr>timestamp = scenario_t0, restart_count = 6\<rparr>]
                       fmempty),
                last_log_collected = fmupd scenario_key (scenario_t0 + 2000000) fmempty\<rparr>,
              [10] @ pys ''=== '' @ [218] @ pys ''LTIMAS LINHAS DO LOG ==='' @ [10]
                @ pys ''panic: boom'' @ [10],
              [Kubectl_logs (pys ''prod'') (pys ''api-7f'') (pys ''app'')])"
    by (simp only: example_name example_key first_collect)
  have "Post ?req \<in> set ?effs"
    unfolding container_effects [OF t a c]
    by (simp add: example_count six send_ntfy_notification_def alert_request example_env_def)
  from this severity_boundaries_monotonic [where a = 10 and b = 11 and req = ?req
      and c = "example_container 6" and cfg = default_config and render = "\<lambda>a. []"
      and env = "example_env scenario_t0" and namespace = "pys ''prod''"
      and name = "pys ''api-7f''" and st = initial_state] r six
  show ?thesis
    by (simp add: example_count)
qed

end
